theory Spec2Isabelle
  imports Main
begin

section \<open>Strings and values of the interpreter\<close>

text \<open>
  A Python \<open>str\<close> is a sequence of Unicode code points, so it is modelled as a list of
  natural numbers, one per code point: \<open>len\<close>, slicing and \<open>find\<close> count code points,
  and a JSON escape of a surrogate pair decodes to one element. \<open>u\<close> turns an ASCII
  literal of this theory into such a string.
\<close>

type_synonym ustr = "nat list"

definition u :: "string \<Rightarrow> ustr" where
  "u s = map of_char s"

text \<open>
  \<open>str.isspace\<close>, the characters \<open>str.strip()\<close> removes: the ASCII white space
  (tab to carriage return, the four separators 0x1C to 0x1F, the blank) and the Unicode
  characters of category Zs or bidirectional type WS, B or S.
\<close>

definition isspace :: "nat \<Rightarrow> bool" where
  "isspace c \<longleftrightarrow>
     (0x09 \<le> c \<and> c \<le> 0x0D) \<or> (0x1C \<le> c \<and> c \<le> 0x20) \<or> c = 0x85 \<or> c = 0xA0 \<or>
     c = 0x1680 \<or> (0x2000 \<le> c \<and> c \<le> 0x200A) \<or> c = 0x2028 \<or> c = 0x2029 \<or>
     c = 0x202F \<or> c = 0x205F \<or> c = 0x3000"

definition strip :: "ustr \<Rightarrow> ustr" where
  "strip s = rev (dropWhile isspace (rev (dropWhile isspace s)))"

definition startswith :: "ustr \<Rightarrow> ustr \<Rightarrow> bool" where
  "startswith s prefix \<longleftrightarrow> take (length prefix) s = prefix"

text \<open>
  \<open>s.find(c)\<close> and \<open>s.rfind(c)\<close> for a one-character \<open>c\<close>: the lowest and the
  highest index where \<open>c\<close> stands, and \<open>-1\<close> when it stands nowhere.
\<close>

fun str_find :: "ustr \<Rightarrow> nat \<Rightarrow> int" where
  "str_find [] c = - 1"
| "str_find (x # xs) c =
     (if x = c then 0 else (let i = str_find xs c in if i < 0 then - 1 else i + 1))"

definition str_rfind :: "ustr \<Rightarrow> nat \<Rightarrow> int" where
  "str_rfind s c =
     (let i = str_find (rev s) c in if i < 0 then - 1 else int (length s) - 1 - i)"

text \<open>
  The slice \<open>s[start:stop]\<close>: a negative index counts from the end, and every index is
  clamped to the range \<open>0..len(s)\<close>; a slice whose bounds cross is empty.
\<close>

definition slice_index :: "nat \<Rightarrow> int \<Rightarrow> nat" where
  "slice_index n i = (if i < 0 then nat (int n + i) else min n (nat i))"

definition py_slice :: "'a list \<Rightarrow> int \<Rightarrow> int \<Rightarrow> 'a list" where
  "py_slice s start stop =
     (let a = slice_index (length s) start; b = slice_index (length s) stop
      in take (b - a) (drop a s))"

text \<open>
  The values \<open>json.loads\<close> builds: \<open>None\<close>, \<open>bool\<close>, \<open>int\<close>, \<open>float\<close>, \<open>str\<close>,
  \<open>list\<close> and \<open>dict\<close>. A \<open>dict\<close> keeps its keys in insertion order, so it is an
  association list with distinct keys. A \<open>float\<close> is kept as the decimal it was read
  from, \<open>Decimal m e\<close> standing for \<open>m * 10 ^ e\<close> up to sign (the sign decides nothing
  in this program), or as one of the three constants the decoder accepts.
\<close>

datatype pyfloat = NaN | Infinity | NegInfinity | Decimal nat int

datatype pyval =
    PyNone
  | PyBool bool
  | PyInt int
  | PyFloat pyfloat
  | PyStr ustr
  | PyList "pyval list"
  | PyDict "(ustr \<times> pyval) list"

type_synonym pydict = "(ustr \<times> pyval) list"

text \<open>\<open>d[k] = v\<close>: an existing key keeps its place, a new key goes to the end.\<close>

fun dict_set :: "pydict \<Rightarrow> ustr \<Rightarrow> pyval \<Rightarrow> pydict" where
  "dict_set [] k v = [(k, v)]"
| "dict_set ((k', v') # d) k v =
     (if k' = k then (k, v) # d else (k', v') # dict_set d k v)"

definition keys :: "pydict \<Rightarrow> ustr list" where
  "keys d = map fst d"

text \<open>\<open>d.get(k)\<close>, whose default is \<open>None\<close>.\<close>

definition dict_get :: "pydict \<Rightarrow> ustr \<Rightarrow> pyval" where
  "dict_get d k = (case map_of d k of None \<Rightarrow> PyNone | Some v \<Rightarrow> v)"

text \<open>
  Truth of a value, as \<open>or\<close> and \<open>not\<close> test it. A float read from a decimal is zero
  when the decimal is zero or rounds to zero, that is when it is at most \<open>2 ^ -1075\<close>,
  half of the smallest positive double.
\<close>

fun float_truthy :: "pyfloat \<Rightarrow> bool" where
  "float_truthy (Decimal m e) =
     (m \<noteq> 0 \<and> (0 \<le> e \<or> (10 :: int) ^ nat (- e) < int m * 2 ^ 1075))"
| "float_truthy _ = True"

fun truthy :: "pyval \<Rightarrow> bool" where
  "truthy PyNone = False"
| "truthy (PyBool b) = b"
| "truthy (PyInt i) = (i \<noteq> 0)"
| "truthy (PyFloat f) = float_truthy f"
| "truthy (PyStr s) = (s \<noteq> [])"
| "truthy (PyList xs) = (xs \<noteq> [])"
| "truthy (PyDict d) = (d \<noteq> [])"

definition py_or :: "pyval \<Rightarrow> pyval \<Rightarrow> pyval" where
  "py_or a b = (if truthy a then a else b)"

section \<open>The JSON decoder\<close>

text \<open>
  \<open>json.loads\<close> is the standard library's decoder, not code of the repository. It is
  modelled after the library's scanner (\<open>scan_once\<close>, \<open>JSONObject\<close>, \<open>JSONArray\<close>,
  \<open>scanstring\<close> in strict mode, the number pattern
  \<open>(-?(?:0|[1-9][0-9]*))(\.[0-9]+)?([eE][-+]?[0-9]+)?\<close>), each function taking the
  input from the current position on and giving back the value and the rest.
  \<open>None\<close> stands for every exception the decoder raises.
\<close>

definition json_ws :: "nat \<Rightarrow> bool" where
  "json_ws c \<longleftrightarrow> c = 0x20 \<or> c = 0x09 \<or> c = 0x0A \<or> c = 0x0D"

definition skip_ws :: "ustr \<Rightarrow> ustr" where
  "skip_ws s = dropWhile json_ws s"

definition hexval :: "nat \<Rightarrow> nat option" where
  "hexval c =
     (if 0x30 \<le> c \<and> c \<le> 0x39 then Some (c - 0x30)
      else if 0x41 \<le> c \<and> c \<le> 0x46 then Some (c - 0x41 + 10)
      else if 0x61 \<le> c \<and> c \<le> 0x66 then Some (c - 0x61 + 10)
      else None)"

definition decode_uXXXX :: "ustr \<Rightarrow> nat option" where
  "decode_uXXXX esc =
     (case map hexval esc of
        [Some a, Some b, Some c, Some d] \<Rightarrow> Some (((a * 16 + b) * 16 + c) * 16 + d)
      | _ \<Rightarrow> None)"

definition BACKSLASH :: "nat \<Rightarrow> nat option" where
  "BACKSLASH esc =
     (if esc = 0x22 then Some 0x22 else if esc = 0x5C then Some 0x5C
      else if esc = 0x2F then Some 0x2F else if esc = 0x62 then Some 0x08
      else if esc = 0x66 then Some 0x0C else if esc = 0x6E then Some 0x0A
      else if esc = 0x72 then Some 0x0D else if esc = 0x74 then Some 0x09
      else None)"

definition append_char :: "nat \<Rightarrow> (ustr \<times> ustr) option \<Rightarrow> (ustr \<times> ustr) option" where
  "append_char c res = (case res of None \<Rightarrow> None | Some (str, rest) \<Rightarrow> Some (c # str, rest))"

text \<open>
  \<open>scanstring\<close> starts behind the opening quote. A high surrogate escape followed by a
  low surrogate escape is one code point; a control character below 0x20 is refused.
\<close>

fun scanstring :: "ustr \<Rightarrow> (ustr \<times> ustr) option" where
  "scanstring [] = None"
| "scanstring (c # r) =
    (if c = 0x22 then Some ([], r)
     else if c = 0x5C then
       (case r of
          [] \<Rightarrow> None
        | esc # r1 \<Rightarrow>
            if esc \<noteq> 0x75 then
              (case BACKSLASH esc of
                 None \<Rightarrow> None
               | Some ch \<Rightarrow> append_char ch (scanstring r1))
            else
              (case decode_uXXXX (take 4 r1) of
                 None \<Rightarrow> None
               | Some uni \<Rightarrow>
                   if 0xD800 \<le> uni \<and> uni \<le> 0xDBFF \<and> take 2 (drop 4 r1) = [0x5C, 0x75] then
                     (case decode_uXXXX (take 4 (drop 6 r1)) of
                        None \<Rightarrow> None
                      | Some uni2 \<Rightarrow>
                          if 0xDC00 \<le> uni2 \<and> uni2 \<le> 0xDFFF
                          then append_char (0x10000 + (uni - 0xD800) * 1024 + (uni2 - 0xDC00))
                                 (scanstring (drop 10 r1))
                          else append_char uni (scanstring (drop 4 r1)))
                   else append_char uni (scanstring (drop 4 r1))))
     else if c < 0x20 then None
     else append_char c (scanstring r))"

definition isdigit :: "nat \<Rightarrow> bool" where
  "isdigit c \<longleftrightarrow> 0x30 \<le> c \<and> c \<le> 0x39"

definition digits_value :: "ustr \<Rightarrow> nat" where
  "digits_value ds = foldl (\<lambda>a d. 10 * a + (d - 0x30)) 0 ds"

text \<open>The three groups of the number pattern: integer part, fraction, exponent.\<close>

definition match_integer :: "ustr \<Rightarrow> (bool \<times> ustr \<times> ustr) option" where
  "match_integer s =
     (let neg = (take 1 s = [0x2D]);
          s1 = (if neg then drop 1 s else s);
          ds = takeWhile isdigit s1
      in if ds = [] then None
         else if take 1 ds = [0x30] then Some (neg, [0x30], drop 1 s1)
         else Some (neg, ds, dropWhile isdigit s1))"

definition match_frac :: "ustr \<Rightarrow> ustr \<times> ustr" where
  "match_frac s =
     (if take 1 s = [0x2E] \<and> takeWhile isdigit (drop 1 s) \<noteq> []
      then (takeWhile isdigit (drop 1 s), dropWhile isdigit (drop 1 s))
      else ([], s))"

definition match_exp :: "ustr \<Rightarrow> int option \<times> ustr" where
  "match_exp s =
     (if take 1 s = [0x65] \<or> take 1 s = [0x45] then
        (let s1 = drop 1 s;
             sgn = (take 1 s1 = [0x2D] \<or> take 1 s1 = [0x2B]);
             s2 = (if sgn then drop 1 s1 else s1);
             ds = takeWhile isdigit s2
         in if ds = [] then (None, s)
            else (Some (if take 1 s1 = [0x2D] then - int (digits_value ds)
                        else int (digits_value ds)),
                  dropWhile isdigit s2))
      else (None, s))"

definition match_number :: "ustr \<Rightarrow> (pyval \<times> ustr) option" where
  "match_number s =
     (case match_integer s of
        None \<Rightarrow> None
      | Some (neg, integer, s1) \<Rightarrow>
          (case match_frac s1 of (frac, s2) \<Rightarrow>
            (case match_exp s2 of (exp, s3) \<Rightarrow>
               if frac = [] \<and> exp = None
               then Some (PyInt (if neg then - int (digits_value integer)
                                 else int (digits_value integer)), s3)
               else Some (PyFloat (Decimal (digits_value (integer @ frac))
                            ((case exp of None \<Rightarrow> 0 | Some e \<Rightarrow> e) - int (length frac))),
                          s3))))"

text \<open>\<open>dict(pairs)\<close>: a repeated key keeps its first place and its last value.\<close>

definition dict_of_pairs :: "(ustr \<times> pyval) list \<Rightarrow> pydict" where
  "dict_of_pairs pairs = foldl (\<lambda>d (k, v). dict_set d k v) [] pairs"

lemma scanstring_shorter: "scanstring s = Some (str, r) \<Longrightarrow> length r < length s"
proof (induction s arbitrary: str r rule: scanstring.induct)
  case 1
  then show ?case by simp
next
  case (2 c r0)
  show ?case
    using "2.prems" "2.IH"
    by (fastforce simp: append_char_def split: if_splits option.splits list.splits)
qed

lemma skip_ws_length: "length (skip_ws s) \<le> length s"
  by (simp add: skip_ws_def length_dropWhile_le)

text \<open>
  \<open>scan_once\<close> reads one value. \<open>JSONArray\<close> and \<open>JSONObject\<close> are the loops of the
  library's functions of these names, entered at the first element and behind the
  opening quote of the first key (the empty array and the empty object are the
  look-ahead cases of \<open>scan_once\<close>). The tests \<open>length _ < length s\<close> before the two
  loops go round again only make the recursion visibly terminating; \<open>scan_shorter\<close> below
  shows that they always hold.
\<close>

function scan_once :: "ustr \<Rightarrow> (pyval \<times> ustr) option"
  and JSONArray :: "ustr \<Rightarrow> (pyval list \<times> ustr) option"
  and JSONObject :: "ustr \<Rightarrow> ((ustr \<times> pyval) list \<times> ustr) option"
where
  "scan_once s =
     (case s of
        [] \<Rightarrow> None
      | nextchar # r \<Rightarrow>
          if nextchar = 0x22 then
            (case scanstring r of None \<Rightarrow> None | Some (str, r1) \<Rightarrow> Some (PyStr str, r1))
          else if nextchar = 0x7B then
            (case skip_ws r of
               [] \<Rightarrow> None
             | c # r1 \<Rightarrow>
                 if c = 0x7D then Some (PyDict [], r1)
                 else if c = 0x22 then
                   (case JSONObject r1 of
                      None \<Rightarrow> None
                    | Some (pairs, r2) \<Rightarrow> Some (PyDict (dict_of_pairs pairs), r2))
                 else None)
          else if nextchar = 0x5B then
            (case skip_ws r of
               [] \<Rightarrow> None
             | c # r1 \<Rightarrow>
                 if c = 0x5D then Some (PyList [], r1)
                 else (case JSONArray (c # r1) of
                         None \<Rightarrow> None
                       | Some (values, r2) \<Rightarrow> Some (PyList values, r2)))
          else if nextchar = 0x6E \<and> take 4 s = u ''null'' then Some (PyNone, drop 4 s)
          else if nextchar = 0x74 \<and> take 4 s = u ''true'' then Some (PyBool True, drop 4 s)
          else if nextchar = 0x66 \<and> take 5 s = u ''false'' then Some (PyBool False, drop 5 s)
          else (case match_number s of
                  Some res \<Rightarrow> Some res
                | None \<Rightarrow>
                    if nextchar = 0x4E \<and> take 3 s = u ''NaN'' then Some (PyFloat NaN, drop 3 s)
                    else if nextchar = 0x49 \<and> take 8 s = u ''Infinity''
                      then Some (PyFloat Infinity, drop 8 s)
                    else if nextchar = 0x2D \<and> take 9 s = u ''-Infinity''
                      then Some (PyFloat NegInfinity, drop 9 s)
                    else None))"
| "JSONArray s =
     (case scan_once s of
        None \<Rightarrow> None
      | Some (v, r) \<Rightarrow>
          (case skip_ws r of
             [] \<Rightarrow> None
           | c # r1 \<Rightarrow>
               if c = 0x5D then Some ([v], r1)
               else if c \<noteq> 0x2C then None
               else if length r1 < length s then
                 (case JSONArray (skip_ws r1) of
                    None \<Rightarrow> None
                  | Some (values, r2) \<Rightarrow> Some (v # values, r2))
               else None))"
| "JSONObject s =
     (case scanstring s of
        None \<Rightarrow> None
      | Some (key, r) \<Rightarrow>
          (case skip_ws r of
             [] \<Rightarrow> None
           | c # r1 \<Rightarrow>
               if c \<noteq> 0x3A then None
               else
                 (case scan_once (skip_ws r1) of
                    None \<Rightarrow> None
                  | Some (v, r2) \<Rightarrow>
                      (case skip_ws r2 of
                         [] \<Rightarrow> None
                       | c2 # r3 \<Rightarrow>
                           if c2 = 0x7D then Some ([(key, v)], r3)
                           else if c2 \<noteq> 0x2C then None
                           else
                             (case skip_ws r3 of
                                [] \<Rightarrow> None
                              | c3 # r4 \<Rightarrow>
                                  if c3 \<noteq> 0x22 then None
                                  else if length r4 < length s then
                                    (case JSONObject r4 of
                                       None \<Rightarrow> None
                                     | Some (pairs, r5) \<Rightarrow> Some ((key, v) # pairs, r5))
                                  else None)))))"
  by pat_completeness auto
termination
proof (relation "measure (\<lambda>x. case x of Inl s \<Rightarrow> 2 * length s
                                        | Inr (Inl s) \<Rightarrow> 2 * length s + 1
                                        | Inr (Inr s) \<Rightarrow> 2 * length s + 1)",
       goal_cases)
  case 1
  show ?case by simp
next
  case (2 s nextchar r c r1)
  then show ?case using skip_ws_length [of r] by simp
next
  case (3 s nextchar r c r1)
  then show ?case using skip_ws_length [of r] by simp
next
  case (4 s)
  show ?case by simp
next
  case (5 s x v r c r1)
  then show ?case using skip_ws_length [of r1] by simp
next
  case (6 s x key r c r1)
  then show ?case
    using skip_ws_length [of r1] skip_ws_length [of r] scanstring_shorter [of s key r]
    by simp
next
  case (7 s x key r c r1 x2 v r2 c2 r3 c3 r4)
  then show ?case by simp
qed

declare scan_once.simps [simp del] JSONArray.simps [simp del] JSONObject.simps [simp del]

text \<open>
  \<open>json.loads\<close> on a \<open>str\<close>: a leading byte order mark is refused, white space may
  stand before and behind the value, and anything else behind it is "extra data".
\<close>

definition json_loads :: "ustr \<Rightarrow> pyval option" where
  "json_loads s =
     (if take 1 s = [0xFEFF] then None
      else (case scan_once (skip_ws s) of
              None \<Rightarrow> None
            | Some (obj, r) \<Rightarrow> if skip_ws r = [] then Some obj else None))"

section \<open>What the program prints, and the exceptions it meets\<close>

text \<open>
  An exception raised by a library is known to the program by its text \<open>str(e)\<close> alone,
  which it prints and logs. The exceptions raised inside the Structured Extractor's
  \<open>try\<close> block are caught there and only printed, so they are told apart by their cause:
  the remote call raised, the response carried no text (\<open>response.text\<close> is \<open>None\<close>, and
  \<open>None.strip()\<close> raises), or the decoder refused the text.
\<close>

datatype pyexc = PyExc (exc_str: ustr)

datatype gemini_error = ServiceError pyexc | NoResponseText | DecodeError

text \<open>One constructor per \<open>print\<close> statement of the program, with the values it formats.\<close>

datatype console_msg =
    ErrorParsingGemini gemini_error
  | UsingFallback ustr
  | PlaywrightFailed ustr pyexc
  | Scraping ustr ustr
  | FailedToFetch ustr
  | ErrorScraping ustr pyexc
  | NoDataToWrite
  | Wrote nat ustr

section \<open>The Structured Extractor (\<open>parse_with_gemini\<close>)\<close>

definition line :: "string \<Rightarrow> ustr" where
  "line s = u s @ [0x0A]"

text \<open>The prompt, an f-string: the page text is stripped and cut to 10000 characters.\<close>

definition prompt :: "ustr \<Rightarrow> ustr option \<Rightarrow> ustr" where
  "prompt raw_text url =
     [0x0A] @
     line ''You are a data extraction AI working for a commercial lending search engine. '' @
     line ''Extract structured lending information from the following scraped website text.'' @
     line [] @
     line ''Return your response in **JSON** with these fields:'' @
     line ''- Lender Name'' @
     line ''- Lender Type (Bank, Credit Union, Independent Lender, Vendor Financing)'' @
     line ''- General Product Types'' @
     line ''- Finance Reasons (Inventory, Expansion, Debt Consolidation, Working Capital, Equipment Purchase, Refinance, N/A)'' @
     line ''- Sub-Product Type (Unsecured Term Loans, SBA, Equipment Loans, etc.)'' @
     line ''- Loan Amount (min and max if available)'' @
     line ''- Starting Rate'' @
     line ''- Term Length'' @
     line ''- Origination Fee'' @
     line ''- Min Time in Business'' @
     line ''- Min Revenue'' @
     line ''- FICO Score'' @
     line ''- Online Application Status (Self-Serve or Consultation Required)'' @
     line ''- Product Page URL'' @
     line ''- Geography Served'' @
     line ''- Veteran Programs'' @
     line ''- Minority Programs'' @
     line ''- Notes (any important details)'' @
     u ''- As-of Date (use today'' @ [0x27] @ line ''s date)'' @
     line [] @
     line ''Scraped content:'' @
     [0x22, 0x22, 0x22, 0x20, 0x0A] @
     take 10000 (strip raw_text) @ [0x20, 0x0A] @
     [0x22, 0x22, 0x22, 0x20, 0x0A] @
     line [] @
     u ''URL: '' @
       (case url of None \<Rightarrow> u ''N/A'' | Some s \<Rightarrow> if s = [] then u ''N/A'' else s) @ [0x0A] @
     line [] @
     line ''Only respond with a JSON object.'' @
     u ''    ''"

text \<open>
  \<open>json_str\<close> is the text handed to the decoder, computed from the stripped response:
  the response itself when it starts with an opening brace, else the slice
  \<open>text[text.find('{') : text.rfind('}') + 1]\<close>.
\<close>

definition json_str :: "ustr \<Rightarrow> ustr" where
  "json_str text =
     (if startswith text [0x7B] then text
      else py_slice text (str_find text 0x7B) (str_rfind text 0x7D + 1))"

text \<open>
  The remote service, \<open>client.models.generate_content\<close>, is a parameter: given the prompt
  it raises, or answers with a response whose \<open>text\<close> is a string or \<open>None\<close>.
\<close>

type_synonym gemini = "ustr \<Rightarrow> pyexc + ustr option"

text \<open>Lines 59 to 65: what the decoder makes of the text of a response.\<close>

definition decode_response :: "ustr \<Rightarrow> pyval option" where
  "decode_response response_text = json_loads (json_str (strip response_text))"

text \<open>
  The response of the specification's example: the object with the one field
  \<open>Lender Name\<close>, of value \<open>X\<close>, behind the words \<open>Sure!\<close> and a blank.
\<close>

definition sure_response :: ustr where
  "sure_response =
     u ''Sure! {'' @ [0x22] @ u ''Lender Name'' @ [0x22] @ u '': '' @ [0x22] @ u ''X'' @ [0x22] @ u ''}''"

text \<open>The body of the \<open>try\<close> block: \<open>Inl\<close> is an exception raised inside it.\<close>

definition gemini_try :: "gemini \<Rightarrow> ustr \<Rightarrow> gemini_error + pyval" where
  "gemini_try generate_content p =
     (case generate_content p of
        Inl e \<Rightarrow> Inl (ServiceError e)
      | Inr None \<Rightarrow> Inl NoResponseText
      | Inr (Some response_text) \<Rightarrow>
          (case decode_response response_text of
             None \<Rightarrow> Inl DecodeError
           | Some v \<Rightarrow> Inr v))"

text \<open>
  The function returns a Python value and what it printed; \<open>PyNone\<close> is Python's
  \<open>None\<close>, which the \<open>except\<close> branch returns. The \<open>print\<close> of that branch is
  taken to return here; \<open>parse_with_gemini_io\<close> below is the function with a
  \<open>print\<close> that can raise.
\<close>

definition parse_with_gemini :: "gemini \<Rightarrow> ustr \<Rightarrow> ustr option \<Rightarrow> pyval \<times> console_msg list" where
  "parse_with_gemini generate_content raw_text url =
     (case gemini_try generate_content (prompt raw_text url) of
        Inl e \<Rightarrow> (PyNone, [ErrorParsingGemini e])
      | Inr v \<Rightarrow> (v, []))"

section \<open>The Fallback Extractor (\<open>fallback_parse_lender_data\<close>)\<close>

text \<open>
  The pattern \<open>\bkeyword\b\<close> is searched with \<open>re.IGNORECASE\<close> in a \<open>str\<close>, so word
  characters and case are Unicode's. For ASCII they are written out; for the other code
  points the two tables of the interpreter's Unicode database are parameters:
  \<open>isalnum_tbl\<close> is \<open>str.isalnum\<close>, and \<open>ieq_tbl p c\<close> says whether the regular
  expression engine lets the pattern letter \<open>p\<close> match the character \<open>c\<close> when case is
  ignored.
\<close>

record unicode_db =
  isalnum_tbl :: "nat \<Rightarrow> bool"
  ieq_tbl :: "nat \<Rightarrow> nat \<Rightarrow> bool"

definition is_word :: "unicode_db \<Rightarrow> nat \<Rightarrow> bool" where
  "is_word db c =
     (if c < 128
      then isdigit c \<or> (0x41 \<le> c \<and> c \<le> 0x5A) \<or> (0x61 \<le> c \<and> c \<le> 0x7A) \<or> c = 0x5F
      else isalnum_tbl db c)"

definition ascii_lower :: "nat \<Rightarrow> nat" where
  "ascii_lower c = (if 0x41 \<le> c \<and> c \<le> 0x5A then c + 32 else c)"

text \<open>
  A character of the pattern against a character of the text. The keywords are made of
  lower-case ASCII letters and blanks; a blank matches only itself.
\<close>

definition char_ieq :: "unicode_db \<Rightarrow> nat \<Rightarrow> nat \<Rightarrow> bool" where
  "char_ieq db p c =
     (if 0x61 \<le> p \<and> p \<le> 0x7A
      then (if c < 128 then ascii_lower c = p else ieq_tbl db p c)
      else c = p)"

fun match_here :: "unicode_db \<Rightarrow> ustr \<Rightarrow> ustr \<Rightarrow> bool" where
  "match_here db [] t = True"
| "match_here db (p # ps) [] = False"
| "match_here db (p # ps) (c # t) = (char_ieq db p c \<and> match_here db ps t)"

text \<open>
  \<open>\b\<close> at a position, given the character before it (if any) and the text from it
  on: exactly one of the two neighbours is a word character.
\<close>

definition word_boundary :: "unicode_db \<Rightarrow> nat option \<Rightarrow> ustr \<Rightarrow> bool" where
  "word_boundary db prev t =
     ((case prev of None \<Rightarrow> False | Some c \<Rightarrow> is_word db c) \<noteq>
      (case t of [] \<Rightarrow> False | c # _ \<Rightarrow> is_word db c))"

definition match_at :: "unicode_db \<Rightarrow> ustr \<Rightarrow> nat option \<Rightarrow> ustr \<Rightarrow> bool" where
  "match_at db keyword prev t \<longleftrightarrow>
     word_boundary db prev t \<and> match_here db keyword t \<and>
     word_boundary db (if keyword = [] then prev else Some (t ! (length keyword - 1)))
       (drop (length keyword) t)"

text \<open>\<open>re.search\<close> tries every position from left to right; the result is used as a truth value.\<close>

fun search_from :: "unicode_db \<Rightarrow> ustr \<Rightarrow> nat option \<Rightarrow> ustr \<Rightarrow> bool" where
  "search_from db keyword prev [] = match_at db keyword prev []"
| "search_from db keyword prev (c # t) =
     (match_at db keyword prev (c # t) \<or> search_from db keyword (Some c) t)"

definition re_search :: "unicode_db \<Rightarrow> ustr \<Rightarrow> ustr \<Rightarrow> bool" where
  "re_search db keyword text = search_from db keyword None text"

definition product_keywords :: "(ustr \<times> ustr list) list" where
  "product_keywords =
     [(u ''Term Loans'', [u ''term loan'', u ''term financing'']),
      (u ''Unsecured Loans'', [u ''unsecured loan'', u ''no collateral'']),
      (u ''Equipment Loans & Leases'',
         [u ''equipment financing'', u ''equipment loan'', u ''equipment lease'']),
      (u ''Lines of Credit'', [u ''line of credit'', u ''credit line'']),
      (u ''Corporate Credit Cards'', [u ''business credit card'', u ''corporate card'']),
      (u ''Venture Debt'', [u ''venture debt'']),
      (u ''Vendor Financing'', [u ''vendor financing'', u ''dealer financing''])]"

text \<open>The inner loop, which stops at the first keyword found, and the outer loop.\<close>

fun any_keyword :: "unicode_db \<Rightarrow> ustr list \<Rightarrow> ustr \<Rightarrow> bool" where
  "any_keyword db [] text = False"
| "any_keyword db (keyword # keywords) text =
     (if re_search db keyword text then True else any_keyword db keywords text)"

fun scan_products :: "unicode_db \<Rightarrow> (ustr \<times> ustr list) list \<Rightarrow> ustr \<Rightarrow> ustr list" where
  "scan_products db [] text = []"
| "scan_products db ((product, keywords) # rest) text =
     (if any_keyword db keywords text then product # scan_products db rest text
      else scan_products db rest text)"

fun str_join :: "ustr \<Rightarrow> ustr list \<Rightarrow> ustr" where
  "str_join sep [] = []"
| "str_join sep [x] = x"
| "str_join sep (x # y # ys) = x @ sep @ str_join sep (y # ys)"

record lender =
  name :: ustr
  url :: ustr
  type :: ustr

definition fallback_parse_lender_data ::
  "unicode_db \<Rightarrow> ustr \<Rightarrow> lender \<Rightarrow> ustr \<Rightarrow> pydict \<times> console_msg list" where
  "fallback_parse_lender_data db text lender as_of =
     (let products = scan_products db product_keywords text in
      ([(u ''Lender Name'', PyStr (name lender)),
        (u ''Lender Type'', PyStr (type lender)),
        (u ''General Product Types'',
           PyStr (if products \<noteq> [] then str_join (u '', '') products else u ''N/A'')),
        (u ''Finance Reasons'', PyStr (u ''N/A'')),
        (u ''Sub-Product Type'', PyStr (u ''N/A'')),
        (u ''Loan Amount'', PyStr (u ''N/A'')),
        (u ''Starting Rate'', PyStr (u ''N/A'')),
        (u ''Term Length'', PyStr (u ''N/A'')),
        (u ''Origination Fee'', PyStr (u ''N/A'')),
        (u ''Min Time in Business'', PyStr (u ''N/A'')),
        (u ''Min Revenue'', PyStr (u ''N/A'')),
        (u ''FICO Score'', PyStr (u ''N/A'')),
        (u ''Online Application Status'', PyStr (u ''N/A'')),
        (u ''Product Page URL'', PyStr (url lender)),
        (u ''Geography Served'', PyStr (u ''N/A'')),
        (u ''Veteran Programs'', PyStr (u ''N/A'')),
        (u ''Minority Programs'', PyStr (u ''N/A'')),
        (u ''Notes'', PyStr (u ''Parsed with fallback parser'')),
        (u ''As-of Date'', PyStr as_of)],
       [UsingFallback (name lender)]))"

definition LENDERS :: "lender list" where
  "LENDERS =
     [\<lparr>name = u ''36th Street Capital'', url = u ''https://36thstreetcapital.com/'',
       type = u ''Independent Lender''\<rparr>,
      \<lparr>name = u ''Alliance Funding Group'', url = u ''https://afg.com/'',
       type = u ''Independent Lender''\<rparr>,
      \<lparr>name = u ''Apple Bank'', url = u ''https://www.applebank.com/'', type = u ''Bank''\<rparr>,
      \<lparr>name = u ''Associated Bank Equipment Finance'', url = u ''https://www.associatedbank.com'',
       type = u ''Bank''\<rparr>,
      \<lparr>name = u ''Atlantic Union Equipment Finance'', url = u ''https://www.atlanticunionbank.com/'',
       type = u ''Bank''\<rparr>]"

section \<open>The Page Fetcher (\<open>get_page_html\<close>)\<close>

text \<open>
  The browser is a parameter: for a URL it tells how each call of the automation library
  ends, \<open>None\<close> for a normal return and \<open>Some e\<close> for an exception (\<open>content\<close> returns
  the markup). \<open>get_page_html\<close> returns its result (\<open>Inl\<close> when an exception leaves the
  function), what it printed, and the library calls it made, in order: \<open>Start\<close> and
  \<open>Stop\<close> are the entry and the exit of the \<open>with sync_playwright()\<close> block, which
  is left on every path once it was entered and which ends the browsers the session
  launched.
\<close>

record page_load =
  start :: "pyexc option"
  launch :: "pyexc option"
  new_page :: "pyexc option"
  route :: "pyexc option"
  goto :: "pyexc option"
  content :: "pyexc + ustr"
  close :: "pyexc option"

type_synonym browser = "ustr \<Rightarrow> page_load"

datatype call = Start | Launch | NewPage | Route | Goto | Content | Close | Stop

text \<open>
  The \<open>try\<close> block with its \<open>except Exception\<close> handler: the markup or \<open>None\<close>, the
  message printed by the handler, and the calls made.
\<close>

definition load_page :: "page_load \<Rightarrow> ustr \<Rightarrow> ustr option \<times> console_msg list \<times> call list" where
  "load_page b url' =
     (case route b of
        Some e \<Rightarrow> (None, [PlaywrightFailed url' e], [Route])
      | None \<Rightarrow>
          (case goto b of
             Some e \<Rightarrow> (None, [PlaywrightFailed url' e], [Route, Goto])
           | None \<Rightarrow>
               (case content b of
                  Inl e \<Rightarrow> (None, [PlaywrightFailed url' e], [Route, Goto, Content])
                | Inr html \<Rightarrow> (Some html, [], [Route, Goto, Content]))))"

definition get_page_html ::
  "browser \<Rightarrow> ustr \<Rightarrow> (pyexc + ustr option) \<times> console_msg list \<times> call list" where
  "get_page_html br url' =
     (let b = br url' in
      case start b of
        Some e \<Rightarrow> (Inl e, [], [Start])
      | None \<Rightarrow>
          (case launch b of
             Some e \<Rightarrow> (Inl e, [], [Start, Launch, Stop])
           | None \<Rightarrow>
               (case new_page b of
                  Some e \<Rightarrow> (Inl e, [], [Start, Launch, NewPage, Stop])
                | None \<Rightarrow>
                    (case load_page b url' of
                       (html, out, calls) \<Rightarrow>
                         (case close b of
                            Some e \<Rightarrow> (Inl e, out, [Start, Launch, NewPage] @ calls @ [Close, Stop])
                          | None \<Rightarrow>
                              (Inr html, out, [Start, Launch, NewPage] @ calls @ [Close, Stop]))))))"

section \<open>The Batch Runner (\<open>scrape\<close>) and the error log\<close>

text \<open>
  The state of a run: the records collected, the text of the file \<open>scrape_errors.log\<close>
  as far as this run appended to it, and the console. In this section appending to the
  log and printing are taken to succeed; the section on output that can fail follows the
  same code with both able to raise.
\<close>

record run_state =
  rows :: "pydict list"
  errlog :: ustr
  console :: "console_msg list"

definition print :: "console_msg list \<Rightarrow> run_state \<Rightarrow> run_state" where
  "print msgs st = st\<lparr>console := console st @ msgs\<rparr>"

definition log_entry :: "lender \<Rightarrow> ustr \<Rightarrow> ustr" where
  "log_entry lender reason =
     name lender @ u '' | '' @ url lender @ u '' | '' @ reason @ [0x0A]"

definition log_failure :: "lender \<Rightarrow> ustr \<Rightarrow> run_state \<Rightarrow> run_state" where
  "log_failure lender reason st = st\<lparr>errlog := errlog st @ log_entry lender reason\<rparr>"

text \<open>
  The world outside the program: the browser, the text reduction
  \<open>BeautifulSoup(html, "html.parser").get_text(separator=" ", strip=True)\<close>, which may
  raise, the remote model, the Unicode tables and the date \<open>datetime.today()\<close> formatted
  as \<open>%Y-%m-%d\<close>, read once at the start of the run. Each of the three services is a
  function of its argument; a run calls each at most once for a lender.
\<close>

record world =
  browser :: browser
  get_text :: "ustr \<Rightarrow> pyexc + ustr"
  generate_content :: gemini
  unicode :: unicode_db
  today :: ustr

text \<open>
  Lines 178 to 181 of the source. On a value that is not a \<open>dict\<close> the first assignment
  raises \<open>TypeError\<close>.
\<close>

definition setitem_error :: "pyval \<Rightarrow> pyexc" where
  "setitem_error v =
     (case v of
        PyList _ \<Rightarrow> PyExc (u ''list indices must be integers or slices, not str'')
      | PyStr _ \<Rightarrow> PyExc ([0x27] @ u ''str'' @ [0x27] @ u '' object does not support item assignment'')
      | PyInt _ \<Rightarrow> PyExc ([0x27] @ u ''int'' @ [0x27] @ u '' object does not support item assignment'')
      | PyBool _ \<Rightarrow> PyExc ([0x27] @ u ''bool'' @ [0x27] @ u '' object does not support item assignment'')
      | PyFloat _ \<Rightarrow> PyExc ([0x27] @ u ''float'' @ [0x27] @ u '' object does not support item assignment'')
      | _ \<Rightarrow> PyExc ([0x27] @ u ''NoneType'' @ [0x27] @ u '' object does not support item assignment''))"

definition normalize_dict :: "ustr \<Rightarrow> lender \<Rightarrow> pydict \<Rightarrow> pydict" where
  "normalize_dict as_of lender parsed =
     (let d1 = dict_set parsed (u ''As-of Date'') (PyStr as_of);
          d2 = dict_set d1 (u ''Lender Name'')
                 (py_or (dict_get d1 (u ''Lender Name'')) (PyStr (name lender)))
      in if u ''Lender Type'' \<notin> set (keys d2) \<or> dict_get d2 (u ''Lender Type'') = PyStr (u ''N/A'')
         then dict_set d2 (u ''Lender Type'') (PyStr (type lender))
         else d2)"

definition normalize :: "ustr \<Rightarrow> lender \<Rightarrow> pyval \<Rightarrow> pyexc + pydict" where
  "normalize as_of lender parsed =
     (case parsed of
        PyDict d \<Rightarrow> Inr (normalize_dict as_of lender d)
      | _ \<Rightarrow> Inl (setitem_error parsed))"

text \<open>
  Lines 169 to 183, from the page text on: the two extractors, the normalization and the
  \<open>append\<close>. The first component is the exception that leaves the block, if any.
\<close>

definition extract_lender ::
  "world \<Rightarrow> ustr \<Rightarrow> lender \<Rightarrow> ustr \<Rightarrow> run_state \<Rightarrow> pyexc option \<times> run_state" where
  "extract_lender w as_of lender text st =
     (case parse_with_gemini (generate_content w) text (Some (url lender)) of
        (ai, out) \<Rightarrow>
          (let st1 = print out st;
               (parsed, st2) =
                  (if ai = PyNone
                   then (case fallback_parse_lender_data (unicode w) text lender as_of of
                           (d, out') \<Rightarrow>
                             (PyDict d,
                              log_failure lender (u ''Gemini failed, used fallback'') (print out' st1)))
                   else (ai, st1))
           in case normalize as_of lender parsed of
                Inl e \<Rightarrow> (Some e, st2)
              | Inr d \<Rightarrow> (None, st2\<lparr>rows := rows st2 @ [d]\<rparr>)))"

text \<open>The body of the \<open>try\<close> block of the loop, lines 160 to 183.\<close>

definition try_lender ::
  "world \<Rightarrow> ustr \<Rightarrow> lender \<Rightarrow> run_state \<Rightarrow> pyexc option \<times> run_state" where
  "try_lender w as_of lender st =
     (case get_page_html (browser w) (url lender) of
        (res, out, calls) \<Rightarrow>
          (let st1 = print out st;
               no_html = (None, log_failure lender (u ''No HTML returned'')
                                  (print [FailedToFetch (url lender)] st1))
           in case res of
                Inl e \<Rightarrow> (Some e, st1)
              | Inr None \<Rightarrow> no_html
              | Inr (Some html) \<Rightarrow>
                  if html = [] then no_html
                  else (case get_text w html of
                          Inl e \<Rightarrow> (Some e, st1)
                        | Inr text \<Rightarrow> extract_lender w as_of lender text st1)))"

text \<open>One round of the loop: the \<open>try\<close> block and its \<open>except Exception\<close> handler.\<close>

definition scrape_lender :: "world \<Rightarrow> ustr \<Rightarrow> lender \<Rightarrow> run_state \<Rightarrow> run_state" where
  "scrape_lender w as_of lender st =
     (case try_lender w as_of lender (print [Scraping (name lender) (url lender)] st) of
        (None, st') \<Rightarrow> st'
      | (Some e, st') \<Rightarrow>
          log_failure lender (u ''Exception: '' @ exc_str e)
            (print [ErrorScraping (name lender) e] st'))"

fun scrape_loop :: "world \<Rightarrow> ustr \<Rightarrow> lender list \<Rightarrow> run_state \<Rightarrow> run_state" where
  "scrape_loop w as_of [] st = st"
| "scrape_loop w as_of (lender # lenders) st =
     scrape_loop w as_of lenders (scrape_lender w as_of lender st)"

definition scrape :: "world \<Rightarrow> run_state" where
  "scrape w = scrape_loop w (today w) LENDERS \<lparr>rows = [], errlog = [], console = []\<rparr>"

section \<open>The Tabular Writer (\<open>write_csv\<close>)\<close>

text \<open>
  \<open>csv.DictWriter\<close> with its defaults: the dialect \<open>excel\<close> (comma, double quote,
  minimal quoting, lines ended by CR LF), \<open>restval\<close> the empty string and
  \<open>extrasaction\<close> \<open>raise\<close>. The writer turns \<open>None\<close> into the empty field, leaves a
  \<open>str\<close> as it is and takes \<open>str(v)\<close> of any other value; \<open>str\<close> on numbers, booleans,
  lists and dicts is the interpreter's and is a parameter, \<open>py_str\<close>.
  The file is opened with the encoding \<open>utf-8\<close>, which refuses a lone surrogate.
\<close>

datatype csv_error = ValueError_fields "ustr list" | UnicodeEncodeError

definition field_text :: "(pyval \<Rightarrow> ustr) \<Rightarrow> pyval \<Rightarrow> ustr" where
  "field_text py_str v = (case v of PyNone \<Rightarrow> [] | PyStr s \<Rightarrow> s | _ \<Rightarrow> py_str v)"

definition needs_quotes :: "ustr \<Rightarrow> bool" where
  "needs_quotes f \<longleftrightarrow> list_ex (\<lambda>c. c = 0x2C \<or> c = 0x22 \<or> c = 0x0D \<or> c = 0x0A) f"

definition quote_field :: "ustr \<Rightarrow> ustr" where
  "quote_field f =
     (if needs_quotes f
      then [0x22] @ concat (map (\<lambda>c. if c = 0x22 then [0x22, 0x22] else [c]) f) @ [0x22]
      else f)"

text \<open>One record of the file; a record whose only field is empty is written as two quotes.\<close>

definition csv_line :: "ustr list \<Rightarrow> ustr" where
  "csv_line cells =
     (if cells = [[]] then [0x22, 0x22] else str_join [0x2C] (map quote_field cells))
     @ [0x0D, 0x0A]"

definition encodable :: "ustr \<Rightarrow> bool" where
  "encodable s \<longleftrightarrow> list_all (\<lambda>c. c < 0xD800 \<or> 0xDFFF < c) s"

text \<open>\<open>DictWriter._dict_to_list\<close>.\<close>

definition dict_to_list :: "ustr list \<Rightarrow> pydict \<Rightarrow> csv_error + pyval list" where
  "dict_to_list fieldnames rowdict =
     (let wrong_fields = filter (\<lambda>k. k \<notin> set fieldnames) (keys rowdict)
      in if wrong_fields \<noteq> [] then Inl (ValueError_fields wrong_fields)
         else Inr (map (\<lambda>key. case map_of rowdict key of None \<Rightarrow> PyStr [] | Some v \<Rightarrow> v)
                     fieldnames))"

text \<open>
  \<open>writerow\<close> appends one record to the text written so far, or raises and leaves the
  text as it is.
\<close>

definition writerow ::
  "(pyval \<Rightarrow> ustr) \<Rightarrow> ustr list \<Rightarrow> pydict \<Rightarrow> ustr \<Rightarrow> csv_error option \<times> ustr" where
  "writerow py_str fieldnames rowdict written =
     (case dict_to_list fieldnames rowdict of
        Inl e \<Rightarrow> (Some e, written)
      | Inr vs \<Rightarrow>
          (let l = csv_line (map (field_text py_str) vs)
           in if encodable l then (None, written @ l) else (Some UnicodeEncodeError, written)))"


text \<open>\<open>writeheader\<close> writes the record that maps every field name to itself.\<close>

definition writeheader :: "(pyval \<Rightarrow> ustr) \<Rightarrow> ustr list \<Rightarrow> ustr \<Rightarrow> csv_error option \<times> ustr" where
  "writeheader py_str fieldnames written =
     writerow py_str fieldnames (map (\<lambda>k. (k, PyStr k)) fieldnames) written"



section \<open>Output that can fail\<close>

text \<open>
  The functions above take \<open>print\<close> and the append to the error log to succeed. Both
  can raise: \<open>print\<close> when the encoding of the console has no code for a character of
  the message (every message of the program begins with a symbol outside ASCII), and
  \<open>log_failure\<close>, which opens \<open>scrape_errors.log\<close> with the encoding of the locale,
  when the file cannot be opened or the entry cannot be encoded. Here the two are calls to
  the outside like those of the browser: for a message, and for the text of an entry, the
  environment tells whether the call returns (\<open>None\<close>) or raises. The functions of the
  Structured Extractor, the fetcher and the runner follow once more, with every
  \<open>print\<close> and every \<open>log_failure\<close> at its place in the source and its exception going
  where Python takes it. With an environment that never raises they are the functions
  above (\<open>scrape_loop_io_total\<close> below).
\<close>

record io =
  stdout :: "console_msg \<Rightarrow> pyexc option"
  logfile :: "ustr \<Rightarrow> pyexc option"

definition print_io :: "io \<Rightarrow> console_msg \<Rightarrow> run_state \<Rightarrow> pyexc + run_state" where
  "print_io io m st = (case stdout io m of Some x \<Rightarrow> Inl x | None \<Rightarrow> Inr (print [m] st))"

definition log_failure_io :: "io \<Rightarrow> lender \<Rightarrow> ustr \<Rightarrow> run_state \<Rightarrow> pyexc + run_state" where
  "log_failure_io io lender reason st =
     (case logfile io (log_entry lender reason) of
        Some x \<Rightarrow> Inl x
      | None \<Rightarrow> Inr (log_failure lender reason st))"

text \<open>
  \<open>parse_with_gemini\<close>: the \<open>print\<close> of the handler (line 67) stands in no \<open>try\<close>, so
  its exception leaves the function (\<open>Inl\<close>).
\<close>

definition parse_with_gemini_io ::
  "io \<Rightarrow> gemini \<Rightarrow> ustr \<Rightarrow> ustr option \<Rightarrow> pyexc + pyval \<times> console_msg list" where
  "parse_with_gemini_io io g raw_text url' =
     (case gemini_try g (prompt raw_text url') of
        Inl e \<Rightarrow>
          (case stdout io (ErrorParsingGemini e) of
             Some x \<Rightarrow> Inl x
           | None \<Rightarrow> Inr (PyNone, [ErrorParsingGemini e]))
      | Inr v \<Rightarrow> Inr (v, []))"

text \<open>
  \<open>get_page_html\<close>: when the \<open>print\<close> of the handler (line 141) raises, the \<open>finally\<close>
  clause still closes the browser, and the exception leaves the function unless the
  closing raises one of its own.
\<close>

definition load_page_io ::
  "io \<Rightarrow> page_load \<Rightarrow> ustr \<Rightarrow> (pyexc + ustr option) \<times> console_msg list \<times> call list" where
  "load_page_io io b url' =
     (case load_page b url' of
        (html, [], calls) \<Rightarrow> (Inr html, [], calls)
      | (html, m # ms, calls) \<Rightarrow>
          (case stdout io m of
             Some x \<Rightarrow> (Inl x, [], calls)
           | None \<Rightarrow> (Inr html, [m], calls)))"

definition get_page_html_io ::
  "io \<Rightarrow> browser \<Rightarrow> ustr \<Rightarrow> (pyexc + ustr option) \<times> console_msg list \<times> call list" where
  "get_page_html_io io br url' =
     (let b = br url' in
      case start b of
        Some e \<Rightarrow> (Inl e, [], [Start])
      | None \<Rightarrow>
          (case launch b of
             Some e \<Rightarrow> (Inl e, [], [Start, Launch, Stop])
           | None \<Rightarrow>
               (case new_page b of
                  Some e \<Rightarrow> (Inl e, [], [Start, Launch, NewPage, Stop])
                | None \<Rightarrow>
                    (case load_page_io io b url' of
                       (res, out, calls) \<Rightarrow>
                         (case close b of
                            Some e \<Rightarrow> (Inl e, out, [Start, Launch, NewPage] @ calls @ [Close, Stop])
                          | None \<Rightarrow> (res, out, [Start, Launch, NewPage] @ calls @ [Close, Stop]))))))"

text \<open>Lines 169 to 183; the Fallback Extractor prints before it does anything else.\<close>

definition extract_lender_io ::
  "io \<Rightarrow> world \<Rightarrow> ustr \<Rightarrow> lender \<Rightarrow> ustr \<Rightarrow> run_state \<Rightarrow> pyexc option \<times> run_state" where
  "extract_lender_io io w as_of lender text st =
     (case parse_with_gemini_io io (generate_content w) text (Some (url lender)) of
        Inl x \<Rightarrow> (Some x, st)
      | Inr (ai, out) \<Rightarrow>
          (let st1 = print out st in
           if ai = PyNone then
             (case print_io io (UsingFallback (name lender)) st1 of
                Inl x \<Rightarrow> (Some x, st1)
              | Inr st2 \<Rightarrow>
                  (case log_failure_io io lender (u ''Gemini failed, used fallback'') st2 of
                     Inl x \<Rightarrow> (Some x, st2)
                   | Inr st3 \<Rightarrow>
                       (case normalize as_of lender
                               (PyDict (fst (fallback_parse_lender_data (unicode w) text lender as_of))) of
                          Inl e \<Rightarrow> (Some e, st3)
                        | Inr d \<Rightarrow> (None, st3\<lparr>rows := rows st3 @ [d]\<rparr>))))
           else
             (case normalize as_of lender ai of
                Inl e \<Rightarrow> (Some e, st1)
              | Inr d \<Rightarrow> (None, st1\<lparr>rows := rows st1 @ [d]\<rparr>))))"

text \<open>The body of the \<open>try\<close> block of the loop, lines 160 to 183.\<close>

definition try_lender_io ::
  "io \<Rightarrow> world \<Rightarrow> ustr \<Rightarrow> lender \<Rightarrow> run_state \<Rightarrow> pyexc option \<times> run_state" where
  "try_lender_io io w as_of lender st =
     (case get_page_html_io io (browser w) (url lender) of
        (res, out, calls) \<Rightarrow>
          (let st1 = print out st;
               no_html =
                 (case print_io io (FailedToFetch (url lender)) st1 of
                    Inl x \<Rightarrow> (Some x, st1)
                  | Inr st2 \<Rightarrow>
                      (case log_failure_io io lender (u ''No HTML returned'') st2 of
                         Inl x \<Rightarrow> (Some x, st2)
                       | Inr st3 \<Rightarrow> (None, st3)))
           in case res of
                Inl e \<Rightarrow> (Some e, st1)
              | Inr None \<Rightarrow> no_html
              | Inr (Some html) \<Rightarrow>
                  if html = [] then no_html
                  else (case get_text w html of
                          Inl e \<Rightarrow> (Some e, st1)
                        | Inr text \<Rightarrow> extract_lender_io io w as_of lender text st1)))"

text \<open>
  One round of the loop. The \<open>print\<close> of line 157 stands before the \<open>try\<close>, and the
  handler's \<open>print\<close> and \<open>log_failure\<close> (lines 186 and 187) stand in no \<open>try\<close>: an
  exception of any of them leaves \<open>scrape\<close> (\<open>Inl\<close>), and the run is over.
\<close>

definition scrape_lender_io :: "io \<Rightarrow> world \<Rightarrow> ustr \<Rightarrow> lender \<Rightarrow> run_state \<Rightarrow> pyexc + run_state" where
  "scrape_lender_io io w as_of lender st =
     (case print_io io (Scraping (name lender) (url lender)) st of
        Inl x \<Rightarrow> Inl x
      | Inr st0 \<Rightarrow>
          (case try_lender_io io w as_of lender st0 of
             (None, st') \<Rightarrow> Inr st'
           | (Some e, st') \<Rightarrow>
               (case print_io io (ErrorScraping (name lender) e) st' of
                  Inl x \<Rightarrow> Inl x
                | Inr st'' \<Rightarrow> log_failure_io io lender (u ''Exception: '' @ exc_str e) st'')))"

fun scrape_loop_io :: "io \<Rightarrow> world \<Rightarrow> ustr \<Rightarrow> lender list \<Rightarrow> run_state \<Rightarrow> pyexc + run_state" where
  "scrape_loop_io io w as_of [] st = Inr st"
| "scrape_loop_io io w as_of (lender # lenders) st =
     (case scrape_lender_io io w as_of lender st of
        Inl x \<Rightarrow> Inl x
      | Inr st' \<Rightarrow> scrape_loop_io io w as_of lenders st')"

definition scrape_io :: "io \<Rightarrow> world \<Rightarrow> pyexc + run_state" where
  "scrape_io io w = scrape_loop_io io w (today w) LENDERS \<lparr>rows = [], errlog = [], console = []\<rparr>"

section \<open>The records of a run\<close>

text \<open>
  Two notions derived from the functions above, used to say what a run collects. The
  text of a lender's page: the reduced text when the fetch returns markup that is not
  empty and the reduction does not raise, and nothing otherwise. The record of a lender
  with a page text: the dict of the Structured Extractor, or else the one of the
  Fallback Extractor, normalized.
\<close>

definition page_text :: "world \<Rightarrow> lender \<Rightarrow> ustr option" where
  "page_text w lender =
     (case fst (get_page_html (browser w) (url lender)) of
        Inr (Some html) \<Rightarrow>
          if html = [] then None
          else (case get_text w html of Inl e \<Rightarrow> None | Inr text \<Rightarrow> Some text)
      | _ \<Rightarrow> None)"

definition lender_record :: "world \<Rightarrow> ustr \<Rightarrow> lender \<Rightarrow> ustr \<Rightarrow> pydict" where
  "lender_record w as_of lender text =
     normalize_dict as_of lender
       (case fst (parse_with_gemini (generate_content w) text (Some (url lender))) of
          PyDict d \<Rightarrow> d
        | _ \<Rightarrow> fst (fallback_parse_lender_data (unicode w) text lender as_of))"

text \<open>
  What a run of the writer puts into the file, record by record: the fields of a
  record are the texts of its values under the field names, the empty text for a
  missing field; the records of the file are the field names of the first record,
  then the fields of every record.
\<close>

definition cells :: "(pyval \<Rightarrow> ustr) \<Rightarrow> ustr list \<Rightarrow> pydict \<Rightarrow> ustr list" where
  "cells py_str fieldnames rowdict =
     map (\<lambda>key. field_text py_str (case map_of rowdict key of None \<Rightarrow> PyStr [] | Some v \<Rightarrow> v))
       fieldnames"


section \<open>Inputs of the examples\<close>

text \<open>A page whose navigation runs into the timeout, every other call succeeding.\<close>

definition timeout_page :: page_load where
  "timeout_page =
     \<lparr>start = None, launch = None, new_page = None, route = None,
      goto = Some (PyExc (u ''Timeout 30000ms exceeded.'')), content = Inr (u ''<html></html>''),
      close = None\<rparr>"

text \<open>
  Unicode tables with no word character and no case pair beyond ASCII; on ASCII text
  the tables are not consulted.
\<close>

definition ascii_db :: unicode_db where
  "ascii_db = \<lparr>isalnum_tbl = (\<lambda>c. False), ieq_tbl = (\<lambda>p c. False)\<rparr>"

text \<open>A page whose every call succeeds and whose markup is the given text.\<close>

definition ok_page :: "ustr \<Rightarrow> page_load" where
  "ok_page html =
     \<lparr>start = None, launch = None, new_page = None, route = None, goto = None,
      content = Inr html, close = None\<rparr>"

text \<open>
  A world that gives every lender the same page, the same result of the text reduction
  and the same answer of the remote model.
\<close>

definition example_world :: "page_load \<Rightarrow> pyexc + ustr \<Rightarrow> pyexc + ustr option \<Rightarrow> world" where
  "example_world page reduced answer =
     \<lparr>browser = (\<lambda>x. page), get_text = (\<lambda>html. reduced), generate_content = (\<lambda>p. answer),
      unicode = ascii_db, today = u ''2026-01-01''\<rparr>"

text \<open>
  A response whose object has the name \<open>N/A\<close> and the empty type, and an exception
  whose text has two lines.
\<close>

definition na_response :: ustr where
  "na_response =
     u ''{'' @ [0x22] @ u ''Lender Name'' @ [0x22] @ u '': '' @ [0x22] @ u ''N/A'' @ [0x22] @
     u '', '' @ [0x22] @ u ''Lender Type'' @ [0x22] @ u '': '' @ [0x22, 0x22] @ u ''}''"

definition two_line_error :: pyexc where
  "two_line_error = PyExc (u ''Executable not found'' @ [0x0A] @ u ''Run: playwright install'')"



text \<open>
  A console and a log file that take everything; a console with the encoding ASCII,
  which takes none of the program's messages; a log file with the encoding ASCII; and
  the exception of a launch whose text has a second line, drawn with box characters.
\<close>

definition total_io :: io where
  "total_io = \<lparr>stdout = (\<lambda>m. None), logfile = (\<lambda>t. None)\<rparr>"

definition ascii_console :: io where
  "ascii_console =
     \<lparr>stdout = (\<lambda>m. Some (PyExc (u ''UnicodeEncodeError''))), logfile = (\<lambda>t. None)\<rparr>"

definition ascii_log :: io where
  "ascii_log =
     \<lparr>stdout = (\<lambda>m. None),
      logfile = (\<lambda>t. if list_all (\<lambda>c. c < 128) t then None
                      else Some (PyExc (u ''UnicodeEncodeError'')))\<rparr>"

definition box_error :: pyexc where
  "box_error = PyExc (u ''Executable not found'' @ [0x0A, 0x2554, 0x2550, 0x2557])"

section \<open>Properties of the decoder\<close>

text \<open>Every function of the decoder consumes input, so the tests in the two loops never fail.\<close>

lemma match_integer_shorter: "match_integer s = Some (neg, ds, s1) \<Longrightarrow> length s1 < length s"
proof -
  assume a: "match_integer s = Some (neg, ds, s1)"
  let ?s1 = "if take 1 s = [0x2D] then drop 1 s else s"
  have ne: "takeWhile isdigit ?s1 \<noteq> []"
    using a by (auto simp: match_integer_def Let_def split: if_splits)
  then have ne1: "?s1 \<noteq> []" by auto
  have le: "length ?s1 \<le> length s" by simp
  have dw: "length (dropWhile isdigit ?s1) < length ?s1"
    using ne by (cases ?s1) (auto split: if_splits simp: le_imp_less_Suc length_dropWhile_le)
  have d1: "length (drop 1 ?s1) < length ?s1" using ne1 by (cases ?s1) auto
  have "s1 = drop 1 ?s1 \<or> s1 = dropWhile isdigit ?s1"
    using a by (auto simp: match_integer_def Let_def split: if_splits)
  then show ?thesis using dw d1 le by (metis le_trans not_le)
qed

lemma match_frac_length: "match_frac s = (f, s2) \<Longrightarrow> length s2 \<le> length s"
  by (auto simp: match_frac_def split: if_splits
           intro: le_trans [OF length_dropWhile_le])

lemma match_exp_length: "match_exp s = (e, s3) \<Longrightarrow> length s3 \<le> length s"
  by (auto simp: match_exp_def Let_def split: if_splits
           intro: le_trans [OF length_dropWhile_le])

lemma match_number_shorter: "match_number s = Some (v, r) \<Longrightarrow> length r < length s"
  apply (auto simp: match_number_def split: option.splits prod.splits if_splits
              dest!: match_integer_shorter match_frac_length match_exp_length)
  done

lemma skip_ws_Cons_length: "skip_ws r = c # r1 \<Longrightarrow> length r1 < length r"
  using skip_ws_length [of r] by simp

lemma scan_shorter:
  "(\<forall>v r. scan_once s = Some (v, r) \<longrightarrow> length r < length s)"
  "(\<forall>vs r. JSONArray s1 = Some (vs, r) \<longrightarrow> length r < length s1)"
  "(\<forall>ps r. JSONObject s2 = Some (ps, r) \<longrightarrow> length r < length s2)"
proof (induction s and s1 and s2 rule: scan_once_JSONArray_JSONObject.induct)
  case (1 s)
  show ?case
  proof (intro allI impI)
    fix v r assume a: "scan_once s = Some (v, r)"
    show "length r < length s"
    proof (cases s)
      case Nil
      with a show ?thesis by (simp add: scan_once.simps)
    next
      case (Cons nextchar r0)
      consider (str) "nextchar = 0x22" | (obj) "nextchar = 0x7B" | (arr) "nextchar = 0x5B"
        | (other) "nextchar \<noteq> 0x22" "nextchar \<noteq> 0x7B" "nextchar \<noteq> 0x5B" by blast
      then show ?thesis
      proof cases
        case str
        with a Cons show ?thesis
          by (subst (asm) scan_once.simps)
             (auto split: option.splits dest: scanstring_shorter)
      next
        case obj
        show ?thesis
        proof (cases "skip_ws r0")
          case Nil
          with a Cons obj show ?thesis by (subst (asm) scan_once.simps) simp
        next
          case (Cons c r1)
          note sk = this
          have l1: "length r1 < length r0" using sk by (rule skip_ws_Cons_length)
          show ?thesis
          proof (cases "c = 0x22")
            case True
            with a \<open>s = nextchar # r0\<close> obj sk
            obtain pairs where jo: "JSONObject r1 = Some (pairs, r)"
              by (subst (asm) scan_once.simps) (auto split: option.splits)
            from "1.IH"(1) \<open>s = nextchar # r0\<close> obj sk True jo
            have "length r < length r1" by auto
            with l1 \<open>s = nextchar # r0\<close> show ?thesis by simp
          next
            case False
            with a \<open>s = nextchar # r0\<close> obj sk l1 show ?thesis
              by (subst (asm) scan_once.simps) (auto split: if_splits)
          qed
        qed
      next
        case arr
        show ?thesis
        proof (cases "skip_ws r0")
          case Nil
          with a Cons arr show ?thesis by (subst (asm) scan_once.simps) simp
        next
          case (Cons c r1)
          note sk = this
          have l1: "length r1 < length r0" using sk by (rule skip_ws_Cons_length)
          show ?thesis
          proof (cases "c = 0x5D")
            case True
            with a \<open>s = nextchar # r0\<close> arr sk l1 show ?thesis
              by (subst (asm) scan_once.simps) auto
          next
            case False
            with a \<open>s = nextchar # r0\<close> arr sk
            obtain vs where ja: "JSONArray (c # r1) = Some (vs, r)"
              by (subst (asm) scan_once.simps) (auto split: option.splits)
            from "1.IH"(2) \<open>s = nextchar # r0\<close> arr sk False ja
            have "length r < length (c # r1)" by auto
            with l1 \<open>s = nextchar # r0\<close> show ?thesis by simp
          qed
        qed
      next
        case other
        with a Cons show ?thesis
          by (subst (asm) scan_once.simps)
             (auto split: if_splits option.splits dest: match_number_shorter)
      qed
    qed
  qed
next
  case (2 s)
  show ?case
  proof (intro allI impI)
    fix vs r assume a: "JSONArray s = Some (vs, r)"
    then obtain v r0 where so: "scan_once s = Some (v, r0)"
      by (subst (asm) JSONArray.simps) (auto split: option.splits)
    with "2.IH"(1) have l0: "length r0 < length s" by simp
    from a so obtain c r1 where sk: "skip_ws r0 = c # r1"
      by (subst (asm) JSONArray.simps) (auto split: list.splits)
    have l1: "length r1 < length r0" using sk by (rule skip_ws_Cons_length)
    show "length r < length s"
    proof (cases "c = 0x5D")
      case True
      with a so sk l0 l1 show ?thesis by (subst (asm) JSONArray.simps) auto
    next
      case False
      with a so sk have c: "c = 0x2C" and g: "length r1 < length s"
        by (subst (asm) JSONArray.simps, auto split: if_splits)+
      with a so sk False obtain vs' where ja: "JSONArray (skip_ws r1) = Some (vs', r)"
        by (subst (asm) JSONArray.simps) (auto split: option.splits)
      from "2.IH"(2) so sk False c g ja
      have "length r < length (skip_ws r1)" by auto
      with skip_ws_length [of r1] g show ?thesis by simp
    qed
  qed
next
  case (3 s)
  show ?case
  proof (intro allI impI)
    fix ps r assume a: "JSONObject s = Some (ps, r)"
    then obtain key r0 where ss: "scanstring s = Some (key, r0)"
      by (subst (asm) JSONObject.simps) (auto split: option.splits)
    have l0: "length r0 < length s" using ss by (rule scanstring_shorter)
    from a ss obtain c r1 where sk: "skip_ws r0 = c # r1"
      by (subst (asm) JSONObject.simps) (auto split: list.splits)
    have l1: "length r1 < length r0" using sk by (rule skip_ws_Cons_length)
    from a ss sk have c: "c = 0x3A"
      by (subst (asm) JSONObject.simps) (auto split: if_splits)
    from a ss sk c obtain v r2 where so: "scan_once (skip_ws r1) = Some (v, r2)"
      by (subst (asm) JSONObject.simps) (auto split: option.splits)
    from "3.IH"(1) ss sk c so
    have l2: "length r2 < length (skip_ws r1)" by auto
    from a ss sk c so obtain c2 r3 where sk2: "skip_ws r2 = c2 # r3"
      by (subst (asm) JSONObject.simps) (auto split: list.splits)
    have l3: "length r3 < length r2" using sk2 by (rule skip_ws_Cons_length)
    have lt: "length r3 < length s"
      using l0 l1 l2 l3 skip_ws_length [of r1] by linarith
    show "length r < length s"
    proof (cases "c2 = 0x7D")
      case True
      with a ss sk c so sk2 lt show ?thesis by (subst (asm) JSONObject.simps) auto
    next
      case False
      with a ss sk c so sk2 have c2: "c2 = 0x2C"
        by (subst (asm) JSONObject.simps) (auto split: if_splits)
      from a ss sk c so sk2 c2 obtain c3 r4 where sk3: "skip_ws r3 = c3 # r4"
        by (subst (asm) JSONObject.simps) (auto split: list.splits)
      have l4: "length r4 < length r3" using sk3 by (rule skip_ws_Cons_length)
      from a ss sk c so sk2 c2 sk3 have c3: "c3 = 0x22"
        by (subst (asm) JSONObject.simps) (auto split: if_splits)
      have g: "length r4 < length s" using l4 lt by linarith
      from a ss sk c so sk2 c2 sk3 c3 g obtain ps' where jo: "JSONObject r4 = Some (ps', r)"
        by (subst (asm) JSONObject.simps) (auto split: option.splits)
      from "3.IH"(2) ss sk c so sk2 False c2 sk3 c3 g jo
      have "length r < length r4" by auto
      with g show ?thesis by linarith
    qed
  qed
qed

text \<open>Unfolding rules for evaluating the decoder and the string functions on a given text.\<close>

lemmas json_eval = json_loads_def skip_ws_def json_ws_def scan_once.simps JSONObject.simps
  JSONArray.simps match_number_def match_integer_def match_frac_def match_exp_def isdigit_def
  digits_value_def dict_of_pairs_def append_char_def BACKSLASH_def u_def

lemmas str_eval = strip_def isspace_def startswith_def json_str_def py_slice_def slice_index_def
  str_rfind_def Let_def u_def

section \<open>Properties of \<open>find\<close>, \<open>rfind\<close> and the slice\<close>

lemma str_find_ge: "- 1 \<le> str_find s c"
  by (induction s) (auto simp: Let_def)

lemma str_find_absent: "str_find s c < 0 \<longleftrightarrow> c \<notin> set s"
proof (induction s)
  case Nil
  show ?case by simp
next
  case (Cons x xs)
  show ?case using Cons str_find_ge [of xs c] by (auto simp: Let_def)
qed

lemma str_find_first:
  "0 \<le> str_find s c \<Longrightarrow>
     nat (str_find s c) < length s \<and> s ! nat (str_find s c) = c \<and>
     (\<forall>k < nat (str_find s c). s ! k \<noteq> c)"
proof (induction s)
  case Nil
  then show ?case by simp
next
  case (Cons x xs)
  show ?case
  proof (cases "x = c")
    case True
    then show ?thesis by simp
  next
    case False
    with Cons.prems have nn: "0 \<le> str_find xs c"
      by (auto simp: Let_def split: if_splits)
    from Cons.IH [OF nn] have ih: "nat (str_find xs c) < length xs" "xs ! nat (str_find xs c) = c"
      "\<forall>k < nat (str_find xs c). xs ! k \<noteq> c" by auto
    have eq: "nat (str_find (x # xs) c) = Suc (nat (str_find xs c))"
      using False nn by (simp add: Let_def nat_add_distrib)
    show ?thesis
      unfolding eq using ih False by (auto simp: nth_Cons split: nat.splits)
  qed
qed



lemma str_rfind_absent: "c \<notin> set s \<Longrightarrow> str_rfind s c = - 1"
  using str_find_absent [of "rev s" c] by (simp add: str_rfind_def Let_def)

lemma str_rfind_last:
  assumes "c \<in> set s"
  shows "0 \<le> str_rfind s c \<and> nat (str_rfind s c) < length s \<and> s ! nat (str_rfind s c) = c"
proof -
  have nn: "0 \<le> str_find (rev s) c" using str_find_absent [of "rev s" c] assms by simp
  from str_find_first [OF nn] have f: "nat (str_find (rev s) c) < length s"
    "rev s ! nat (str_find (rev s) c) = c" by auto
  let ?i = "nat (str_find (rev s) c)"
  have r: "str_rfind s c = int (length s) - 1 - int ?i"
    using nn by (simp add: str_rfind_def Let_def)
  have "s ! (length s - Suc ?i) = c" using f by (simp add: rev_nth)
  moreover have "nat (str_rfind s c) = length s - Suc ?i" using r f(1) nn by linarith
  moreover have "0 \<le> str_rfind s c" using r f(1) nn by linarith
  moreover have "length s - Suc ?i < length s" using f(1) by linarith
  ultimately show ?thesis by simp
qed


text \<open>The shape of the text handed to the decoder.\<close>

lemma json_str_shape:
  "json_str t = [] \<or> json_str t = [0x7D] \<or> startswith (json_str t) [0x7B]"
proof (cases "startswith t [0x7B]")
  case True
  then show ?thesis by (simp add: json_str_def)
next
  case False
  show ?thesis
  proof (cases "0x7B \<in> set t")
    case True
    then have nn: "0 \<le> str_find t 0x7B" using str_find_absent [of t "0x7B"] by simp
    from str_find_first [OF nn] have f: "nat (str_find t 0x7B) < length t"
      "t ! nat (str_find t 0x7B) = 0x7B" by auto
    let ?a = "nat (str_find t 0x7B)"
    have a: "slice_index (length t) (str_find t 0x7B) = ?a"
      using nn f(1) by (simp add: slice_index_def)
    have d: "drop ?a t = 0x7B # drop (Suc ?a) t"
      using f Cons_nth_drop_Suc [of ?a t] by simp
    show ?thesis
      using False a d
      by (cases "slice_index (length t) (str_rfind t 0x7D + 1) - ?a")
         (simp_all add: json_str_def py_slice_def Let_def startswith_def)
  next
    case nb: False
    then have m1: "str_find t 0x7B = - 1"
      using str_find_absent [of t "0x7B"] str_find_ge [of t "0x7B"] by simp
    show ?thesis
    proof (cases "t = []")
      case True
      then show ?thesis by (simp add: json_str_def py_slice_def Let_def)
    next
      case ne: False
      then have a: "slice_index (length t) (- 1) = length t - 1"
        by (cases t) (simp_all add: slice_index_def)
      have "drop (length (butlast t)) (butlast t @ [last t]) = [last t]"
        by (simp del: append_butlast_last_id)
      then have d: "drop (length t - 1) t = [last t]"
        using ne by simp
      show ?thesis
      proof (cases "0x7D \<in> set t \<and> str_rfind t 0x7D = int (length t) - 1")
        case True
        moreover have "nat (int (length t) - 1) = length t - 1" by linarith
        ultimately have "last t = 0x7D"
          using str_rfind_last [of "0x7D" t] ne by (simp add: last_conv_nth)
        then show ?thesis
          using False m1 a d
          by (cases "slice_index (length t) (str_rfind t 0x7D + 1) - (length t - 1)")
             (simp_all add: json_str_def py_slice_def Let_def)
      next
        case False
        have "slice_index (length t) (str_rfind t 0x7D + 1) \<le> length t - 1"
        proof (cases "0x7D \<in> set t")
          case True
          from str_rfind_last [OF True] False True
          show ?thesis by (auto simp: slice_index_def)
        next
          case False
          then show ?thesis using str_rfind_absent [of "0x7D" t] by (simp add: slice_index_def)
        qed
        then show ?thesis
          using \<open>\<not> startswith t [0x7B]\<close> m1 a
          by (simp add: json_str_def py_slice_def Let_def)
      qed
    qed
  qed
qed


lemma skip_ws_brace: "skip_ws (0x7B # r) = 0x7B # r"
  by (simp add: skip_ws_def json_ws_def)

lemma scan_once_brace: "scan_once (0x7B # r) = Some (v, rest) \<Longrightarrow> \<exists>d. v = PyDict d"
  by (subst (asm) scan_once.simps) (auto split: list.splits if_splits option.splits)

lemma json_loads_brace:
  assumes "startswith s [0x7B]" "json_loads s = Some v"
  shows "\<exists>d. v = PyDict d"
proof -
  from assms(1) obtain r where s: "s = 0x7B # r"
    by (cases s) (auto simp: startswith_def)
  from assms(2) obtain rest where "scan_once (0x7B # r) = Some (v, rest)"
    unfolding s json_loads_def skip_ws_brace
    by (auto split: if_splits option.splits)
  then show ?thesis by (rule scan_once_brace)
qed

lemma json_loads_empty: "json_loads [] = None"
  by (simp add: json_loads_def skip_ws_def scan_once.simps)

lemma json_loads_rbrace: "json_loads [0x7D] = None"
  by (simp add: json_eval)

lemma decode_response_dict: "decode_response r = Some v \<Longrightarrow> \<exists>d. v = PyDict d"
  using json_str_shape [of "strip r"] json_loads_brace [of "json_str (strip r)" v]
  by (auto simp: decode_response_def json_loads_empty json_loads_rbrace)

lemma parse_with_gemini_dict_or_none:
  "fst (parse_with_gemini g raw url') = PyNone \<or> (\<exists>d. fst (parse_with_gemini g raw url') = PyDict d)"
  by (auto simp: parse_with_gemini_def gemini_try_def split: sum.splits option.splits
           dest: decode_response_dict)




lemma decode_sure_response:
  "decode_response sure_response = Some (PyDict [(u ''Lender Name'', PyStr (u ''X''))])"
  by (simp add: sure_response_def decode_response_def str_eval json_eval)

lemma decode_not_json: "decode_response (u ''not json'') = None"
  by (simp add: decode_response_def str_eval json_eval)

section \<open>The Structured Extractor: claims C3, C4 and C9\<close>




text \<open>
  Claim C4 says that the extractor never raises to its caller. The handler of its
  \<open>try\<close> block prints the error, and this \<open>print\<close> stands in no \<open>try\<close>: on a
  console whose encoding cannot take the message, the decode error of the response
  \<open>not json\<close>, and likewise an error of the remote call, ends in the exception of
  \<open>print\<close>, which leaves the function.
\<close>

theorem print_raises_counterexample:
  "json_loads (json_str (strip (u ''not json''))) = None \<and>
   parse_with_gemini_io ascii_console (\<lambda>p. Inr (Some (u ''not json''))) [] None
     = Inl (PyExc (u ''UnicodeEncodeError'')) \<and>
   parse_with_gemini_io ascii_console (\<lambda>p. Inl (PyExc (u ''503''))) [] None
     = Inl (PyExc (u ''UnicodeEncodeError''))"
proof -
  have 1: "json_loads (json_str (strip (u ''not json''))) = None"
    using decode_not_json by (simp add: decode_response_def)
  show ?thesis
    using 1 by (simp add: parse_with_gemini_io_def gemini_try_def decode_not_json ascii_console_def)
qed

text \<open>
  Claim C4, amended. For every page text and URL: when the remote call raises, when the
  response has no text, or when the decoder refuses the slice, the extractor prints the
  error and, if that \<open>print\<close> returns, returns \<open>None\<close>; when the decoder accepts
  the slice, it returns the decoded value as it is, with no check of its fields and
  whatever the console. It raises to its caller in one case only: an error was caught and
  the \<open>print\<close> of the handler raises; the exception is then that of \<open>print\<close>. So
  with a console that takes the error messages it never raises, and is the function
  \<open>parse_with_gemini\<close> of the sections above.
\<close>

theorem extractor_raises_only_in_print:
  "(g (prompt raw url') = Inl e \<and> stdout io (ErrorParsingGemini (ServiceError e)) = None \<longrightarrow>
      parse_with_gemini_io io g raw url' = Inr (PyNone, [ErrorParsingGemini (ServiceError e)])) \<and>
   (g (prompt raw url') = Inr None \<and> stdout io (ErrorParsingGemini NoResponseText) = None \<longrightarrow>
      parse_with_gemini_io io g raw url' = Inr (PyNone, [ErrorParsingGemini NoResponseText])) \<and>
   (g (prompt raw url') = Inr (Some t) \<and> json_loads (json_str (strip t)) = None \<and>
    stdout io (ErrorParsingGemini DecodeError) = None \<longrightarrow>
      parse_with_gemini_io io g raw url' = Inr (PyNone, [ErrorParsingGemini DecodeError])) \<and>
   (g (prompt raw url') = Inr (Some t) \<and> json_loads (json_str (strip t)) = Some v \<longrightarrow>
      parse_with_gemini_io io g raw url' = Inr (v, [])) \<and>
   ((\<forall>err. stdout io (ErrorParsingGemini err) = None) \<longrightarrow>
      parse_with_gemini_io io g raw url' = Inr (parse_with_gemini g raw url')) \<and>
   (parse_with_gemini_io io g raw url' = Inl x \<longleftrightarrow>
      (\<exists>err. gemini_try g (prompt raw url') = Inl err \<and> stdout io (ErrorParsingGemini err) = Some x))"
proof (intro conjI impI)
  show "parse_with_gemini_io io g raw url' = Inl x \<longleftrightarrow>
      (\<exists>err. gemini_try g (prompt raw url') = Inl err \<and> stdout io (ErrorParsingGemini err) = Some x)"
    by (auto simp: parse_with_gemini_io_def split: sum.splits option.splits)
next
  assume "\<forall>err. stdout io (ErrorParsingGemini err) = None"
  then show "parse_with_gemini_io io g raw url' = Inr (parse_with_gemini g raw url')"
    by (simp add: parse_with_gemini_io_def parse_with_gemini_def split: sum.splits)
qed (simp_all add: parse_with_gemini_io_def gemini_try_def decode_response_def)

theorem extractor_raises_only_in_print_witness:
  "parse_with_gemini_io ascii_log (\<lambda>p. Inl (PyExc (u ''503''))) [] None
     = Inr (PyNone, [ErrorParsingGemini (ServiceError (PyExc (u ''503'')))]) \<and>
   parse_with_gemini_io ascii_log (\<lambda>p. Inr None) [] None
     = Inr (PyNone, [ErrorParsingGemini NoResponseText]) \<and>
   json_loads (json_str (strip (u ''not json''))) = None \<and>
   parse_with_gemini_io ascii_log (\<lambda>p. Inr (Some (u ''not json''))) [] None
     = Inr (PyNone, [ErrorParsingGemini DecodeError]) \<and>
   parse_with_gemini_io ascii_log (\<lambda>p. Inr (Some (u ''not json''))) [] None
     = Inr (parse_with_gemini (\<lambda>p. Inr (Some (u ''not json''))) [] None) \<and>
   json_loads (json_str (strip (u ''{}''))) = Some (PyDict []) \<and>
   parse_with_gemini_io ascii_console (\<lambda>p. Inr (Some (u ''{}''))) [] None = Inr (PyDict [], []) \<and>
   gemini_try (\<lambda>p. Inr None) (prompt [] None) = Inl NoResponseText \<and>
   parse_with_gemini_io ascii_console (\<lambda>p. Inr None) [] None = Inl (PyExc (u ''UnicodeEncodeError''))"
proof -
  have 1: "json_loads (json_str (strip (u ''not json''))) = None"
    using decode_not_json by (simp add: decode_response_def)
  have 2: "json_loads (json_str (strip (u ''{}''))) = Some (PyDict [])"
    by (simp add: str_eval json_eval)
  have 3: "\<And>m. stdout ascii_log m = None"
    "\<And>m. stdout ascii_console m = Some (PyExc (u ''UnicodeEncodeError''))"
    by (simp_all add: ascii_log_def ascii_console_def)
  have 4: "gemini_try (\<lambda>p. Inr None) (prompt [] None) = Inl NoResponseText"
    by (simp add: gemini_try_def)
  note a = extractor_raises_only_in_print [of "\<lambda>p. Inl (PyExc (u ''503''))" "[]" None "PyExc (u ''503'')" ascii_log _ _ "PyExc []"]
  note b = extractor_raises_only_in_print [of "\<lambda>p. Inr None" "[]" None _ ascii_log _ _ "PyExc []"]
  note c = extractor_raises_only_in_print [of "\<lambda>p. Inr (Some (u ''not json''))" "[]" None _ ascii_log "u ''not json''" _ "PyExc []"]
  note d = extractor_raises_only_in_print [of "\<lambda>p. Inr (Some (u ''{}''))" "[]" None _ ascii_console "u ''{}''" "PyDict []" "PyExc []"]
  note e = extractor_raises_only_in_print [of "\<lambda>p. Inr None" "[]" None _ ascii_console _ _ "PyExc (u ''UnicodeEncodeError'')"]
  have ra: "parse_with_gemini_io ascii_log (\<lambda>p. Inl (PyExc (u ''503''))) [] None
     = Inr (PyNone, [ErrorParsingGemini (ServiceError (PyExc (u ''503'')))])"
    using a 3 by simp
  have rb: "parse_with_gemini_io ascii_log (\<lambda>p. Inr None) [] None
     = Inr (PyNone, [ErrorParsingGemini NoResponseText])"
    using b 3 by simp
  have rc: "parse_with_gemini_io ascii_log (\<lambda>p. Inr (Some (u ''not json''))) [] None
     = Inr (PyNone, [ErrorParsingGemini DecodeError])"
    "parse_with_gemini_io ascii_log (\<lambda>p. Inr (Some (u ''not json''))) [] None
     = Inr (parse_with_gemini (\<lambda>p. Inr (Some (u ''not json''))) [] None)"
    using c 1 3 by auto
  have rd: "parse_with_gemini_io ascii_console (\<lambda>p. Inr (Some (u ''{}''))) [] None = Inr (PyDict [], [])"
    using d 2 by simp
  have re: "parse_with_gemini_io ascii_console (\<lambda>p. Inr None) [] None = Inl (PyExc (u ''UnicodeEncodeError''))"
    using e 3 4 by simp
  show ?thesis
    using ra rb rc rd re 1 2 4 by blast
qed

text \<open>
  Claim C9 says that the text decoded begins with an opening brace whenever it is not
  empty. It does not: without an opening brace \<open>find\<close> gives \<open>-1\<close>, the slice
  starts at the last character, and for a response that ends with a closing brace the
  slice is that brace alone.
\<close>

theorem slice_not_brace_counterexample:
  "json_str (strip (u ''x}'')) \<noteq> [] \<and> \<not> startswith (json_str (strip (u ''x}''))) [0x7B]"
  by (simp add: str_eval)

text \<open>
  Claim C9, amended. For every response the result of the extractor is \<open>None\<close> or a
  \<open>dict\<close>, never a list, a string, a number or a boolean: the text decoded is empty,
  or the single character \<open>}\<close>, or begins with an opening brace; the decoder refuses
  the first two, and what it decodes from the third is an object.
\<close>

theorem extractor_result_dict_or_none:
  "(fst (parse_with_gemini g raw url') = PyNone \<or>
      (\<exists>d. fst (parse_with_gemini g raw url') = PyDict d)) \<and>
   (json_str (strip r) = [] \<or> json_str (strip r) = [0x7D] \<or> startswith (json_str (strip r)) [0x7B]) \<and>
   json_loads [] = None \<and> json_loads [0x7D] = None"
  using parse_with_gemini_dict_or_none [of g raw url'] json_str_shape [of "strip r"]
  by (simp add: json_loads_empty json_loads_rbrace)

theorem extractor_result_dict_or_none_witness:
  "fst (parse_with_gemini (\<lambda>p. Inr (Some (u ''x}''))) [] None) = PyNone \<and>
   json_str (strip (u ''x}'')) = [0x7D] \<and>
   (\<exists>d. fst (parse_with_gemini (\<lambda>p. Inr (Some sure_response)) [] None) = PyDict d)"
proof -
  have 1: "json_str (strip (u ''x}'')) = [0x7D]" by (simp add: str_eval)
  have 2: "fst (parse_with_gemini (\<lambda>p. Inr (Some (u ''x}''))) [] None) = PyNone"
    by (simp add: parse_with_gemini_def gemini_try_def decode_response_def 1 json_loads_rbrace)
  have 3: "fst (parse_with_gemini (\<lambda>p. Inr (Some sure_response)) [] None) \<noteq> PyNone"
    by (simp add: parse_with_gemini_def gemini_try_def decode_sure_response)
  show ?thesis
    using extractor_result_dict_or_none [of "\<lambda>p. Inr (Some sure_response)" "[]" None "u ''x}''"] 1 2 3
    by simp
qed

section \<open>The Page Fetcher: claim C6\<close>






section \<open>The Fallback Extractor: claim C5\<close>


















section \<open>Properties of the runner\<close>

subsection \<open>Dicts and the normalization\<close>

lemma u_eq_iff [simp]: "u a = u b \<longleftrightarrow> a = b"
proof -
  have "inj (of_char :: char \<Rightarrow> nat)"
    by (rule injI) simp
  then show ?thesis unfolding u_def by (simp add: inj_map_eq_map)
qed

lemma u_Nil_iff [simp]: "u a = [] \<longleftrightarrow> a = []" "[] = u a \<longleftrightarrow> a = []"
  by (auto simp: u_def)

lemma dict_get_set: "dict_get (dict_set d k v) k' = (if k' = k then v else dict_get d k')"
  by (induction d) (auto simp: dict_get_def)

lemma keys_dict_set: "keys (dict_set d k v) = (if k \<in> set (keys d) then keys d else keys d @ [k])"
proof (induction d)
  case Nil
  show ?case by (simp add: keys_def)
next
  case (Cons p d)
  obtain k' v' where p: "p = (k', v')" by (cases p)
  show ?case using Cons by (auto simp: keys_def p)
qed


lemma normalize_name:
  "dict_get (normalize_dict a l d) (u ''Lender Name'')
     = py_or (dict_get d (u ''Lender Name'')) (PyStr (name l))"
  by (simp add: normalize_dict_def Let_def dict_get_set)

lemma normalize_type:
  "dict_get (normalize_dict a l d) (u ''Lender Type'')
     = (if u ''Lender Type'' \<notin> set (keys d) \<or> dict_get d (u ''Lender Type'') = PyStr (u ''N/A'')
        then PyStr (type l) else dict_get d (u ''Lender Type''))"
  by (simp add: normalize_dict_def Let_def dict_get_set keys_dict_set)

lemma normalize_keys:
  "u ''As-of Date'' \<in> set (keys (normalize_dict a l d)) \<and>
   u ''Lender Name'' \<in> set (keys (normalize_dict a l d)) \<and>
   u ''Lender Type'' \<in> set (keys (normalize_dict a l d))"
  by (simp add: normalize_dict_def Let_def keys_dict_set)

subsection \<open>One round of the loop, and the loop\<close>

lemma rows_print [simp]: "rows (print m st) = rows st"
  and errlog_print [simp]: "errlog (print m st) = errlog st"
  and console_print [simp]: "console (print m st) = console st @ m"
  by (simp_all add: print_def)

lemma rows_log_failure [simp]: "rows (log_failure l r st) = rows st"
  and errlog_log_failure [simp]: "errlog (log_failure l r st) = errlog st @ log_entry l r"
  and console_log_failure [simp]: "console (log_failure l r st) = console st"
  by (simp_all add: log_failure_def)

lemma extract_lender_result:
  "fst (extract_lender w a l t st) = None \<and>
   rows (snd (extract_lender w a l t st)) = rows st @ [lender_record w a l t] \<and>
   errlog (snd (extract_lender w a l t st)) = errlog st @
     (if fst (parse_with_gemini (generate_content w) t (Some (url l))) = PyNone
      then log_entry l (u ''Gemini failed, used fallback'') else [])"
proof -
  obtain ai out where pw: "parse_with_gemini (generate_content w) t (Some (url l)) = (ai, out)"
    by (cases "parse_with_gemini (generate_content w) t (Some (url l))") auto
  from parse_with_gemini_dict_or_none [of "generate_content w" t "Some (url l)"]
  have "ai = PyNone \<or> (\<exists>d. ai = PyDict d)" by (simp add: pw)
  then show ?thesis
  proof
    assume "ai = PyNone"
    then show ?thesis
      by (simp add: extract_lender_def pw lender_record_def normalize_def Let_def split: prod.splits)
  next
    assume "\<exists>d. ai = PyDict d"
    then obtain d where "ai = PyDict d" by blast
    then show ?thesis
      by (simp add: extract_lender_def pw lender_record_def normalize_def Let_def)
  qed
qed

lemma try_lender_cases:
  "try_lender w a l st =
     (case get_page_html (browser w) (url l) of
        (Inl e, out, calls) \<Rightarrow> (Some e, print out st)
      | (Inr None, out, calls) \<Rightarrow>
          (None, log_failure l (u ''No HTML returned'') (print [FailedToFetch (url l)] (print out st)))
      | (Inr (Some html), out, calls) \<Rightarrow>
          if html = []
          then (None, log_failure l (u ''No HTML returned'') (print [FailedToFetch (url l)] (print out st)))
          else (case get_text w html of
                  Inl e \<Rightarrow> (Some e, print out st)
                | Inr t \<Rightarrow> extract_lender w a l t (print out st)))"
  by (simp add: try_lender_def Let_def split: prod.splits sum.splits option.splits)

lemma try_lender_rows:
  "rows (snd (try_lender w a l st))
     = rows st @ (case page_text w l of None \<Rightarrow> [] | Some t \<Rightarrow> [lender_record w a l t])"
  by (auto simp: try_lender_cases page_text_def extract_lender_result
           split: prod.splits sum.splits option.splits)

lemma try_lender_exception:
  "fst (try_lender w a l st) = Some e \<Longrightarrow>
     rows (snd (try_lender w a l st)) = rows st \<and> errlog (snd (try_lender w a l st)) = errlog st \<and>
     page_text w l = None"
  by (auto simp: try_lender_cases page_text_def extract_lender_result
           split: prod.splits sum.splits option.splits if_splits)

lemma scrape_lender_rows:
  "rows (scrape_lender w a l st)
     = rows st @ (case page_text w l of None \<Rightarrow> [] | Some t \<Rightarrow> [lender_record w a l t])"
proof -
  obtain ex st' where tl: "try_lender w a l (print [Scraping (name l) (url l)] st) = (ex, st')"
    by (cases "try_lender w a l (print [Scraping (name l) (url l)] st)") auto
  have "rows st' = rows st @ (case page_text w l of None \<Rightarrow> [] | Some t \<Rightarrow> [lender_record w a l t])"
    using try_lender_rows [of w a l "print [Scraping (name l) (url l)] st"] by (simp add: tl)
  then show ?thesis
    by (simp add: scrape_lender_def tl split: option.splits)
qed

lemma scrape_loop_rows:
  "rows (scrape_loop w a ls st)
     = rows st @ concat (map (\<lambda>l. case page_text w l of None \<Rightarrow> []
                                   | Some t \<Rightarrow> [lender_record w a l t]) ls)"
  by (induction ls arbitrary: st) (simp_all add: scrape_lender_rows)

lemma scrape_loop_append:
  "scrape_loop w a (ls1 @ ls2) st = scrape_loop w a ls2 (scrape_loop w a ls1 st)"
  by (induction ls1 arbitrary: st) simp_all

lemma decode_na_response:
  "decode_response na_response
     = Some (PyDict [(u ''Lender Name'', PyStr (u ''N/A'')), (u ''Lender Type'', PyStr [])])"
  by (simp add: na_response_def decode_response_def str_eval json_eval)

lemma LENDERS_fields:
  "\<forall>l\<in>set LENDERS. name l \<noteq> [] \<and> type l \<noteq> u ''N/A'' \<and> 0x0A \<notin> set (name l) \<and> 0x0A \<notin> set (url l)"
  by (simp add: LENDERS_def u_def)

lemma hd_LENDERS:
  "hd LENDERS = \<lparr>name = u ''36th Street Capital'', url = u ''https://36thstreetcapital.com/'',
       type = u ''Independent Lender''\<rparr>"
  by (simp add: LENDERS_def)

lemma count_list_absent: "x \<notin> set xs \<Longrightarrow> count_list xs x = 0"
  by (induction xs) auto

lemma log_entry_one_line:
  "0x0A \<notin> set (name l) \<Longrightarrow> 0x0A \<notin> set (url l) \<Longrightarrow> 0x0A \<notin> set r \<Longrightarrow>
   count_list (log_entry l r) 0x0A = 1"
  by (simp add: log_entry_def count_list_absent) (simp add: u_def)

lemma example_fetch:
  "fst (get_page_html (browser (example_world (ok_page h) reduced answer)) x) = Inr (Some h)"
  by (simp add: example_world_def ok_page_def get_page_html_def load_page_def)

lemma example_fields:
  "get_text (example_world page reduced answer) h = reduced"
  "generate_content (example_world page reduced answer) p = answer"
  "unicode (example_world page reduced answer) = ascii_db"
  "today (example_world page reduced answer) = u ''2026-01-01''"
  "browser (example_world page reduced answer) x = page"
  by (simp_all add: example_world_def)

text \<open>
  The functions with output that can fail: with a console and a log that never raise
  they are the functions of the runner above, and an exception that leaves the \<open>try\<close>
  block leaves the records and the log as they were.
\<close>

lemma fallback_prints: "snd (fallback_parse_lender_data db t l a) = [UsingFallback (name l)]"
  by (simp add: fallback_parse_lender_data_def Let_def)

lemma parse_with_gemini_io_total:
  "\<forall>m. stdout io m = None \<Longrightarrow> parse_with_gemini_io io g r x = Inr (parse_with_gemini g r x)"
  by (simp add: parse_with_gemini_io_def parse_with_gemini_def split: sum.splits)

lemma load_page_io_total:
  "\<forall>m. stdout io m = None \<Longrightarrow>
   load_page_io io b x = (case load_page b x of (h, out, calls) \<Rightarrow> (Inr h, out, calls))"
  by (simp add: load_page_io_def load_page_def split: option.splits sum.splits)

lemma get_page_html_io_total:
  "\<forall>m. stdout io m = None \<Longrightarrow> get_page_html_io io br x = get_page_html br x"
  by (simp add: get_page_html_io_def get_page_html_def load_page_io_total Let_def
           split: option.splits prod.splits)

lemma print_io_total: "\<forall>m. stdout io m = None \<Longrightarrow> print_io io m st = Inr (print [m] st)"
  by (simp add: print_io_def)

lemma log_failure_io_total:
  "\<forall>t. logfile io t = None \<Longrightarrow> log_failure_io io l r st = Inr (log_failure l r st)"
  by (simp add: log_failure_io_def)

lemma extract_lender_io_total:
  assumes "\<forall>m. stdout io m = None" "\<forall>t. logfile io t = None"
  shows "extract_lender_io io w a l t st = extract_lender w a l t st"
proof -
  obtain ai out where p: "parse_with_gemini (generate_content w) t (Some (url l)) = (ai, out)"
    by (cases "parse_with_gemini (generate_content w) t (Some (url l))")
  obtain d out' where f: "fallback_parse_lender_data (unicode w) t l a = (d, out')"
    by (cases "fallback_parse_lender_data (unicode w) t l a")
  have o: "out' = [UsingFallback (name l)]"
    using fallback_prints [of "unicode w" t l a] by (simp add: f)
  show ?thesis
    by (simp add: extract_lender_io_def extract_lender_def parse_with_gemini_io_total [OF assms(1)]
          print_io_total [OF assms(1)] log_failure_io_total [OF assms(2)] p f o Let_def)
qed

lemma try_lender_io_total:
  assumes "\<forall>m. stdout io m = None" "\<forall>t. logfile io t = None"
  shows "try_lender_io io w a l st = try_lender w a l st"
  by (simp add: try_lender_io_def try_lender_def get_page_html_io_total [OF assms(1)]
        print_io_total [OF assms(1)] log_failure_io_total [OF assms(2)]
        extract_lender_io_total [OF assms] Let_def split: prod.splits sum.splits option.splits)

lemma scrape_lender_io_total:
  assumes "\<forall>m. stdout io m = None" "\<forall>t. logfile io t = None"
  shows "scrape_lender_io io w a l st = Inr (scrape_lender w a l st)"
  by (simp add: scrape_lender_io_def scrape_lender_def try_lender_io_total [OF assms]
        print_io_total [OF assms(1)] log_failure_io_total [OF assms(2)]
        split: prod.splits option.splits)

lemma scrape_loop_io_total:
  assumes "\<forall>m. stdout io m = None" "\<forall>t. logfile io t = None"
  shows "scrape_loop_io io w a ls st = Inr (scrape_loop w a ls st)"
  by (induction ls arbitrary: st) (simp_all add: scrape_lender_io_total [OF assms])

lemma rows_print_io: "print_io io m st = Inr st' \<Longrightarrow> rows st' = rows st \<and> errlog st' = errlog st"
  by (auto simp: print_io_def split: option.splits)

lemma extract_lender_io_exception:
  assumes "fst (extract_lender_io io w a l t st) = Some e"
  shows "rows (snd (extract_lender_io io w a l t st)) = rows st \<and>
         errlog (snd (extract_lender_io io w a l t st)) = errlog st"
  using assms
  by (auto simp: extract_lender_io_def print_io_def log_failure_io_def normalize_def Let_def
           split: sum.splits option.splits prod.splits if_splits pyval.splits)

lemma try_lender_io_exception:
  assumes "fst (try_lender_io io w a l st) = Some e"
  shows "rows (snd (try_lender_io io w a l st)) = rows st \<and>
         errlog (snd (try_lender_io io w a l st)) = errlog st"
  using assms extract_lender_io_exception [of io w a l _ "print (fst (snd (get_page_html_io io (browser w) (url l)))) st" e]
  by (auto simp: try_lender_io_def print_io_def log_failure_io_def Let_def
           split: sum.splits option.splits prod.splits if_splits)

section \<open>The Batch Runner: claims C10, C8, C2 and C1\<close>



lemma scrape_lender_io_exception:
  assumes "stdout io (Scraping (name l) (url l)) = None"
    "fst (try_lender_io io w a l (print [Scraping (name l) (url l)] st)) = Some e"
    "stdout io (ErrorScraping (name l) e) = None"
  shows "scrape_lender_io io w a l st
           = log_failure_io io l (u ''Exception: '' @ exc_str e)
               (print [ErrorScraping (name l) e]
                  (snd (try_lender_io io w a l (print [Scraping (name l) (url l)] st))))"
proof -
  let ?st0 = "print [Scraping (name l) (url l)] st"
  obtain st' where tl: "try_lender_io io w a l ?st0 = (Some e, st')"
    using assms(2) by (cases "try_lender_io io w a l ?st0") auto
  show ?thesis
    using assms(1,3) by (simp add: scrape_lender_io_def print_io_def tl)
qed

lemma scrape_lender_io_no_html:
  assumes "stdout io (Scraping (name l) (url l)) = None"
    "fst (get_page_html_io io (browser w) (url l)) = Inr None"
    "stdout io (FailedToFetch (url l)) = None"
    "logfile io (log_entry l (u ''No HTML returned'')) = None"
  shows "\<exists>st'. scrape_lender_io io w a l st = Inr st' \<and> rows st' = rows st \<and>
           errlog st' = errlog st @ log_entry l (u ''No HTML returned'')"
proof -
  obtain out calls where g: "get_page_html_io io (browser w) (url l) = (Inr None, out, calls)"
    using assms(2) by (cases "get_page_html_io io (browser w) (url l)") auto
  show ?thesis
    using assms(1,3,4)
    by (simp add: scrape_lender_io_def try_lender_io_def print_io_def log_failure_io_def g Let_def)
qed

lemma try_lender_io_fetch_raises:
  assumes "fst (get_page_html_io io (browser w) (url l)) = Inl e"
  shows "fst (try_lender_io io w a l st) = Some e"
proof -
  obtain out calls where g: "get_page_html_io io (browser w) (url l) = (Inl e, out, calls)"
    using assms by (cases "get_page_html_io io (browser w) (url l)") auto
  show ?thesis by (simp add: try_lender_io_def g Let_def)
qed

lemma try_lender_io_text_raises:
  assumes "fst (get_page_html_io io (browser w) (url l)) = Inr (Some h)" "h \<noteq> []" "get_text w h = Inl e"
  shows "fst (try_lender_io io w a l st) = Some e"
proof -
  obtain out calls where g: "get_page_html_io io (browser w) (url l) = (Inr (Some h), out, calls)"
    using assms(1) by (cases "get_page_html_io io (browser w) (url l)") auto
  show ?thesis using assms(2,3) by (simp add: try_lender_io_def g Let_def)
qed

text \<open>
  Claim C8 says that a failure never ends the run and appends exactly one line to the
  error log. The entry of an exception carries the exception's text as it is: when the
  launch of the browser raises an exception whose text has two lines, the log grows by
  two lines. And \<open>log_failure\<close> is called in the handler of the loop, in no \<open>try\<close>,
  and opens the log with the encoding of the locale: when that encoding is ASCII and the
  text of the launch error holds box characters, the write raises, the exception leaves
  \<open>scrape\<close>, and the run ends at the first lender with no record returned.
\<close>

theorem log_entry_lines_counterexample:
  "(\<exists>st'. scrape_lender_io total_io
            (example_world ((ok_page [])\<lparr>launch := Some two_line_error\<rparr>) (Inr []) (Inr None))
            (u ''2026-01-01'') (hd LENDERS) \<lparr>rows = [], errlog = [], console = []\<rparr> = Inr st' \<and>
          count_list (errlog st') 0x0A = 2) \<and>
   fst (try_lender_io ascii_log (example_world ((ok_page [])\<lparr>launch := Some box_error\<rparr>) (Inr []) (Inr None))
         (u ''2026-01-01'') (hd LENDERS) \<lparr>rows = [], errlog = [], console = []\<rparr>)
     = Some box_error \<and>
   scrape_io ascii_log (example_world ((ok_page [])\<lparr>launch := Some box_error\<rparr>) (Inr []) (Inr None))
     = Inl (PyExc (u ''UnicodeEncodeError''))"
proof -
  have 1: "scrape_lender_io total_io
            (example_world ((ok_page [])\<lparr>launch := Some two_line_error\<rparr>) (Inr []) (Inr None))
            (u ''2026-01-01'') (hd LENDERS) \<lparr>rows = [], errlog = [], console = []\<rparr>
      = Inr \<lparr>rows = [],
             errlog = log_entry (hd LENDERS) (u ''Exception: '' @ exc_str two_line_error),
             console = [Scraping (name (hd LENDERS)) (url (hd LENDERS)),
                        ErrorScraping (name (hd LENDERS)) two_line_error]\<rparr>"
    by (simp add: scrape_lender_io_def try_lender_io_def get_page_html_io_def example_world_def
          ok_page_def print_io_def log_failure_io_def print_def log_failure_def total_io_def Let_def)
  have 2: "count_list (log_entry (hd LENDERS) (u ''Exception: '' @ exc_str two_line_error)) 0x0A = 2"
    by (simp add: log_entry_def two_line_error_def hd_LENDERS) (simp add: u_def)
  have 3: "fst (try_lender_io ascii_log (example_world ((ok_page [])\<lparr>launch := Some box_error\<rparr>) (Inr []) (Inr None))
         (u ''2026-01-01'') (hd LENDERS) \<lparr>rows = [], errlog = [], console = []\<rparr>)
     = Some box_error"
    by (simp add: try_lender_io_def get_page_html_io_def example_world_def ok_page_def Let_def)
  have 4: "\<not> list_all (\<lambda>c. c < 128) (log_entry l (u ''Exception: '' @ exc_str box_error))" for l
    by (simp add: log_entry_def box_error_def)
  have 5: "scrape_lender_io ascii_log (example_world ((ok_page [])\<lparr>launch := Some box_error\<rparr>) (Inr []) (Inr None))
             a l st = Inl (PyExc (u ''UnicodeEncodeError''))" for a l st
    using 4 [of l]
    by (simp add: scrape_lender_io_def try_lender_io_def get_page_html_io_def example_world_def
          ok_page_def print_io_def log_failure_io_def ascii_log_def Let_def)
  have 6: "LENDERS = hd LENDERS # tl LENDERS" by (simp add: LENDERS_def)
  have 7: "scrape_io ascii_log (example_world ((ok_page [])\<lparr>launch := Some box_error\<rparr>) (Inr []) (Inr None))
     = Inl (PyExc (u ''UnicodeEncodeError''))"
    unfolding scrape_io_def by (subst 6) (simp add: 5)
  show ?thesis using 1 2 3 7 by simp
qed

text \<open>
  Claim C8, amended. A failure while one lender is processed does not end the run as long
  as the messages of that round can be printed and its entry can be written to the error
  log. Under these conditions, when the fetch returns the sentinel, or when an exception
  leaves the \<open>try\<close> block (as it does when the fetch or the text reduction raises), the
  round appends no record, appends to the error log exactly one entry
  \<open>name | url | reason\<close> ended by a line break, the reason being \<open>No HTML returned\<close>
  or \<open>Exception:\<close> and the text of the exception, and the loop goes on with the lenders
  behind it from the state the round left; the entry is a single line when name, URL and
  reason hold no line break. When the entry of an exception cannot be written, the
  exception of the write ends the run. With a console and a log that never raise, no run
  is ended by an exception, whatever the lenders and the world.
\<close>

theorem failure_isolated_if_logged:
  "(stdout io (Scraping (name l) (url l)) = None \<and>
    fst (get_page_html_io io (browser w) (url l)) = Inr None \<and>
    stdout io (FailedToFetch (url l)) = None \<and>
    logfile io (log_entry l (u ''No HTML returned'')) = None \<longrightarrow>
      (\<exists>st'. scrape_lender_io io w a l st = Inr st' \<and> rows st' = rows st \<and>
             errlog st' = errlog st @ log_entry l (u ''No HTML returned'') \<and>
             scrape_loop_io io w a (l # ls) st = scrape_loop_io io w a ls st')) \<and>
   (stdout io (Scraping (name l) (url l)) = None \<and>
    fst (try_lender_io io w a l (print [Scraping (name l) (url l)] st)) = Some e \<and>
    stdout io (ErrorScraping (name l) e) = None \<and>
    logfile io (log_entry l (u ''Exception: '' @ exc_str e)) = None \<longrightarrow>
      (\<exists>st'. scrape_lender_io io w a l st = Inr st' \<and> rows st' = rows st \<and>
             errlog st' = errlog st @ log_entry l (u ''Exception: '' @ exc_str e) \<and>
             scrape_loop_io io w a (l # ls) st = scrape_loop_io io w a ls st')) \<and>
   (stdout io (Scraping (name l) (url l)) = None \<and>
    fst (try_lender_io io w a l (print [Scraping (name l) (url l)] st)) = Some e \<and>
    stdout io (ErrorScraping (name l) e) = None \<and>
    logfile io (log_entry l (u ''Exception: '' @ exc_str e)) = Some x \<longrightarrow>
      scrape_loop_io io w a (l # ls) st = Inl x) \<and>
   (fst (get_page_html_io io (browser w) (url l)) = Inl e \<longrightarrow>
      fst (try_lender_io io w a l st1) = Some e) \<and>
   (fst (get_page_html_io io (browser w) (url l)) = Inr (Some h) \<and> h \<noteq> [] \<and> get_text w h = Inl e
      \<longrightarrow> fst (try_lender_io io w a l st1) = Some e) \<and>
   ((\<forall>m. stdout io m = None) \<and> (\<forall>t. logfile io t = None) \<longrightarrow>
      get_page_html_io io (browser w) (url l) = get_page_html (browser w) (url l) \<and>
      scrape_loop_io io w a ls st = Inr (scrape_loop w a ls st)) \<and>
   log_entry l r = name l @ u '' | '' @ url l @ u '' | '' @ r @ [0x0A] \<and>
   (0x0A \<notin> set (name l) \<and> 0x0A \<notin> set (url l) \<and> 0x0A \<notin> set r
      \<longrightarrow> count_list (log_entry l r) 0x0A = 1)"
proof (intro conjI impI)
  show "log_entry l r = name l @ u '' | '' @ url l @ u '' | '' @ r @ [0x0A]"
    by (simp add: log_entry_def)
next
  assume "0x0A \<notin> set (name l) \<and> 0x0A \<notin> set (url l) \<and> 0x0A \<notin> set r"
  then show "count_list (log_entry l r) 0x0A = 1"
    using log_entry_one_line [of l r] by blast
next
  assume "fst (get_page_html_io io (browser w) (url l)) = Inl e"
  then show "fst (try_lender_io io w a l st1) = Some e" by (rule try_lender_io_fetch_raises)
next
  assume "fst (get_page_html_io io (browser w) (url l)) = Inr (Some h) \<and> h \<noteq> [] \<and> get_text w h = Inl e"
  then show "fst (try_lender_io io w a l st1) = Some e"
    using try_lender_io_text_raises [of io w l h e a st1] by blast
next
  assume t: "(\<forall>m. stdout io m = None) \<and> (\<forall>t. logfile io t = None)"
  then show "get_page_html_io io (browser w) (url l) = get_page_html (browser w) (url l)"
    by (simp add: get_page_html_io_total)
  from t show "scrape_loop_io io w a ls st = Inr (scrape_loop w a ls st)"
    by (simp add: scrape_loop_io_total)
next
  assume h: "stdout io (Scraping (name l) (url l)) = None \<and>
    fst (get_page_html_io io (browser w) (url l)) = Inr None \<and>
    stdout io (FailedToFetch (url l)) = None \<and>
    logfile io (log_entry l (u ''No HTML returned'')) = None"
  then obtain st' where s: "scrape_lender_io io w a l st = Inr st'" "rows st' = rows st"
      "errlog st' = errlog st @ log_entry l (u ''No HTML returned'')"
    using scrape_lender_io_no_html [of io l w a st] by blast
  then show "\<exists>st'. scrape_lender_io io w a l st = Inr st' \<and> rows st' = rows st \<and>
             errlog st' = errlog st @ log_entry l (u ''No HTML returned'') \<and>
             scrape_loop_io io w a (l # ls) st = scrape_loop_io io w a ls st'"
    by simp
next
  assume h: "stdout io (Scraping (name l) (url l)) = None \<and>
    fst (try_lender_io io w a l (print [Scraping (name l) (url l)] st)) = Some e \<and>
    stdout io (ErrorScraping (name l) e) = None \<and>
    logfile io (log_entry l (u ''Exception: '' @ exc_str e)) = None"
  let ?st0 = "print [Scraping (name l) (url l)] st"
  let ?st1 = "snd (try_lender_io io w a l ?st0)"
  have s: "scrape_lender_io io w a l st
      = Inr (log_failure l (u ''Exception: '' @ exc_str e) (print [ErrorScraping (name l) e] ?st1))"
    using h scrape_lender_io_exception [of io l w a st e] by (simp add: log_failure_io_def)
  have k: "rows ?st1 = rows st \<and> errlog ?st1 = errlog st"
    using h try_lender_io_exception [of io w a l ?st0 e] by simp
  show "\<exists>st'. scrape_lender_io io w a l st = Inr st' \<and> rows st' = rows st \<and>
             errlog st' = errlog st @ log_entry l (u ''Exception: '' @ exc_str e) \<and>
             scrape_loop_io io w a (l # ls) st = scrape_loop_io io w a ls st'"
    using k by (simp add: s)
next
  assume h: "stdout io (Scraping (name l) (url l)) = None \<and>
    fst (try_lender_io io w a l (print [Scraping (name l) (url l)] st)) = Some e \<and>
    stdout io (ErrorScraping (name l) e) = None \<and>
    logfile io (log_entry l (u ''Exception: '' @ exc_str e)) = Some x"
  have "scrape_lender_io io w a l st = Inl x"
    using h scrape_lender_io_exception [of io l w a st e] by (simp add: log_failure_io_def)
  then show "scrape_loop_io io w a (l # ls) st = Inl x" by simp
qed

theorem failure_isolated_if_logged_witness:
  "fst (get_page_html_io ascii_log (browser (example_world timeout_page (Inr []) (Inr None)))
          (url (hd LENDERS))) = Inr None \<and>
   (\<exists>st'. scrape_lender_io ascii_log (example_world timeout_page (Inr []) (Inr None))
             (u ''2026-01-01'') (hd LENDERS) \<lparr>rows = [], errlog = [], console = []\<rparr> = Inr st' \<and>
          rows st' = [] \<and>
          errlog st' = u ''36th Street Capital | https://36thstreetcapital.com/ | No HTML returned'' @ [0x0A] \<and>
          scrape_loop_io ascii_log (example_world timeout_page (Inr []) (Inr None)) (u ''2026-01-01'')
              (hd LENDERS # tl LENDERS) \<lparr>rows = [], errlog = [], console = []\<rparr>
            = scrape_loop_io ascii_log (example_world timeout_page (Inr []) (Inr None)) (u ''2026-01-01'')
                (tl LENDERS) st') \<and>
   count_list (log_entry (hd LENDERS) (u ''No HTML returned'')) 0x0A = 1 \<and>
   fst (try_lender_io ascii_log
          (example_world ((ok_page [])\<lparr>launch := Some (PyExc (u ''boom''))\<rparr>) (Inr []) (Inr None))
          (u ''2026-01-01'') (hd LENDERS)
          (print [Scraping (name (hd LENDERS)) (url (hd LENDERS))] \<lparr>rows = [], errlog = [], console = []\<rparr>))
     = Some (PyExc (u ''boom'')) \<and>
   (\<exists>st'. scrape_lender_io ascii_log
             (example_world ((ok_page [])\<lparr>launch := Some (PyExc (u ''boom''))\<rparr>) (Inr []) (Inr None))
             (u ''2026-01-01'') (hd LENDERS) \<lparr>rows = [], errlog = [], console = []\<rparr> = Inr st' \<and>
          rows st' = [] \<and>
          errlog st' = u ''36th Street Capital | https://36thstreetcapital.com/ | Exception: boom'' @ [0x0A]) \<and>
   fst (try_lender_io ascii_log
          (example_world ((ok_page [])\<lparr>launch := Some box_error\<rparr>) (Inr []) (Inr None))
          (u ''2026-01-01'') (hd LENDERS)
          (print [Scraping (name (hd LENDERS)) (url (hd LENDERS))] \<lparr>rows = [], errlog = [], console = []\<rparr>))
     = Some box_error \<and>
   scrape_loop_io ascii_log (example_world ((ok_page [])\<lparr>launch := Some box_error\<rparr>) (Inr []) (Inr None))
       (u ''2026-01-01'') (hd LENDERS # tl LENDERS) \<lparr>rows = [], errlog = [], console = []\<rparr>
     = Inl (PyExc (u ''UnicodeEncodeError'')) \<and>
   scrape_loop_io total_io (example_world timeout_page (Inr []) (Inr None)) (u ''2026-01-01'') LENDERS
       \<lparr>rows = [], errlog = [], console = []\<rparr>
     = Inr (scrape_loop (example_world timeout_page (Inr []) (Inr None)) (u ''2026-01-01'') LENDERS
              \<lparr>rows = [], errlog = [], console = []\<rparr>)"
proof -
  let ?w1 = "example_world timeout_page (Inr []) (Inr None)"
  let ?w2 = "example_world ((ok_page [])\<lparr>launch := Some (PyExc (u ''boom''))\<rparr>) (Inr []) (Inr None)"
  let ?w3 = "example_world ((ok_page [])\<lparr>launch := Some box_error\<rparr>) (Inr []) (Inr None)"
  let ?st = "\<lparr>rows = [], errlog = [], console = []\<rparr>"
  let ?l = "hd LENDERS"
  let ?sp = "print [Scraping (name ?l) (url ?l)] ?st"
  have o: "\<And>m. stdout ascii_log m = None" "\<And>m. stdout total_io m = None"
    "\<And>t. logfile total_io t = None"
    by (simp_all add: ascii_log_def total_io_def)
  have 1: "fst (get_page_html_io ascii_log (browser ?w1) (url ?l)) = Inr None"
    by (simp add: example_world_def timeout_page_def get_page_html_io_def load_page_io_def
          load_page_def ascii_log_def)
  have 2: "fst (try_lender_io ascii_log ?w2 (u ''2026-01-01'') ?l ?sp) = Some (PyExc (u ''boom''))"
    by (simp add: try_lender_io_def get_page_html_io_def example_world_def ok_page_def Let_def)
  have 3: "fst (try_lender_io ascii_log ?w3 (u ''2026-01-01'') ?l ?sp) = Some box_error"
    by (simp add: try_lender_io_def get_page_html_io_def example_world_def ok_page_def Let_def)
  have 4: "0x0A \<notin> set (name ?l) \<and> 0x0A \<notin> set (url ?l) \<and> 0x0A \<notin> set (u ''No HTML returned'')"
    by (simp add: hd_LENDERS) (simp add: u_def)
  have 5: "log_entry ?l (u ''No HTML returned'')
      = u ''36th Street Capital | https://36thstreetcapital.com/ | No HTML returned'' @ [0x0A]"
    by (simp add: log_entry_def hd_LENDERS) (simp add: u_def)
  have 6: "log_entry ?l (u ''Exception: '' @ exc_str (PyExc (u ''boom'')))
      = u ''36th Street Capital | https://36thstreetcapital.com/ | Exception: boom'' @ [0x0A]"
    by (simp add: log_entry_def hd_LENDERS) (simp add: u_def)
  have 7: "logfile ascii_log (u ''36th Street Capital | https://36thstreetcapital.com/ | No HTML returned'' @ [0x0A]) = None"
    "logfile ascii_log (u ''36th Street Capital | https://36thstreetcapital.com/ | Exception: boom'' @ [0x0A]) = None"
    by (simp_all add: ascii_log_def u_def)
  have 8: "logfile ascii_log (log_entry ?l (u ''Exception: '' @ exc_str box_error))
      = Some (PyExc (u ''UnicodeEncodeError''))"
    by (simp add: ascii_log_def log_entry_def box_error_def)
  note a = failure_isolated_if_logged [of ascii_log ?l ?w1 "u ''2026-01-01''" ?st "tl LENDERS" "PyExc []"
              "PyExc []" ?st "[]" "u ''No HTML returned''"]
  note b = failure_isolated_if_logged [of ascii_log ?l ?w2 "u ''2026-01-01''" ?st "tl LENDERS" "PyExc (u ''boom'')"
              "PyExc []" ?st "[]" "[]"]
  note c = failure_isolated_if_logged [of ascii_log ?l ?w3 "u ''2026-01-01''" ?st "tl LENDERS" box_error
              "PyExc (u ''UnicodeEncodeError'')" ?st "[]" "[]"]
  note d = failure_isolated_if_logged [of total_io ?l ?w1 "u ''2026-01-01''" ?st LENDERS "PyExc []"
              "PyExc []" ?st "[]" "[]"]
  have 9: "logfile ascii_log (log_entry ?l (u ''No HTML returned'')) = None"
    "logfile ascii_log (log_entry ?l (u ''Exception: '' @ exc_str (PyExc (u ''boom'')))) = None"
    using 7 by (simp_all only: 5 6)
  obtain sa where sa: "scrape_lender_io ascii_log ?w1 (u ''2026-01-01'') ?l ?st = Inr sa"
      "rows sa = rows ?st" "errlog sa = errlog ?st @ log_entry ?l (u ''No HTML returned'')"
      "scrape_loop_io ascii_log ?w1 (u ''2026-01-01'') (?l # tl LENDERS) ?st
            = scrape_loop_io ascii_log ?w1 (u ''2026-01-01'') (tl LENDERS) sa"
    using a o(1) 1 9(1) by blast
  have ra: "\<exists>st'. scrape_lender_io ascii_log ?w1 (u ''2026-01-01'') ?l ?st = Inr st' \<and>
          rows st' = [] \<and>
          errlog st' = u ''36th Street Capital | https://36thstreetcapital.com/ | No HTML returned'' @ [0x0A] \<and>
          scrape_loop_io ascii_log ?w1 (u ''2026-01-01'') (?l # tl LENDERS) ?st
            = scrape_loop_io ascii_log ?w1 (u ''2026-01-01'') (tl LENDERS) st'"
    using sa by (intro exI [of _ sa]) (simp add: 5 del: scrape_loop_io.simps)
  have rb: "count_list (log_entry ?l (u ''No HTML returned'')) 0x0A = 1"
    using a 4 by blast
  obtain sb where sb: "scrape_lender_io ascii_log ?w2 (u ''2026-01-01'') ?l ?st = Inr sb"
      "rows sb = rows ?st"
      "errlog sb = errlog ?st @ log_entry ?l (u ''Exception: '' @ exc_str (PyExc (u ''boom'')))"
    using b o(1) 2 9(2) by blast
  have rc: "\<exists>st'. scrape_lender_io ascii_log ?w2 (u ''2026-01-01'') ?l ?st = Inr st' \<and>
          rows st' = [] \<and>
          errlog st' = u ''36th Street Capital | https://36thstreetcapital.com/ | Exception: boom'' @ [0x0A]"
    using sb 6 by (intro exI [of _ sb]) simp
  have rd: "scrape_loop_io ascii_log ?w3 (u ''2026-01-01'') (?l # tl LENDERS) ?st
     = Inl (PyExc (u ''UnicodeEncodeError''))"
    using c o(1) 3 8 by blast
  have re: "scrape_loop_io total_io ?w1 (u ''2026-01-01'') LENDERS ?st
     = Inr (scrape_loop ?w1 (u ''2026-01-01'') LENDERS ?st)"
    using d o(2,3) by blast
  show ?thesis
    using 1 2 3 ra rb rc rd re by blast
qed



lemma scrape_rows:
  "rows (scrape w)
     = concat (map (\<lambda>l. case page_text w l of None \<Rightarrow> []
                         | Some t \<Rightarrow> [lender_record w (today w) l t]) LENDERS)"
  by (simp add: scrape_def scrape_loop_rows)

lemma scrape_rows_normalized:
  "d \<in> set (rows (scrape w)) \<Longrightarrow>
   \<exists>l\<in>set LENDERS. \<exists>d0. d = normalize_dict (today w) l d0"
  by (auto simp: scrape_rows lender_record_def split: option.splits)




lemma dict_get_absent: "k \<notin> set (keys d) \<Longrightarrow> dict_get d k = PyNone"
  by (simp add: dict_get_def keys_def map_of_eq_None_iff [THEN iffD2])

lemma dict_get_Nil: "dict_get [] k = PyNone"
  and dict_get_Cons: "dict_get ((k', v) # d) k = (if k' = k then v else dict_get d k)"
  by (simp_all add: dict_get_def)

lemma normalized_invariant:
  assumes "name l \<noteq> []" "type l \<noteq> u ''N/A''"
  shows "u ''Lender Name'' \<in> set (keys (normalize_dict a l d0)) \<and>
         truthy (dict_get (normalize_dict a l d0) (u ''Lender Name'')) \<and>
         u ''Lender Type'' \<in> set (keys (normalize_dict a l d0)) \<and>
         dict_get (normalize_dict a l d0) (u ''Lender Type'') \<noteq> PyStr (u ''N/A'')"
  using assms normalize_keys [of a l d0]
  by (simp add: normalize_name normalize_type py_or_def)

text \<open>
  Claim C1: in every record of a run the name and the type of the lender are neither
  empty nor \<open>N/A\<close>, the descriptor's values standing in for what the extractor omits,
  nulls or sets to \<open>N/A\<close>. The code does not keep it. Of the two sibling lines, the
  one for the name replaces a missing, null or empty name and overlooks \<open>N/A\<close>, and the one for
  the type replaces a missing type and \<open>N/A\<close> and overlooks null and the empty string: when
  the model answers with the name \<open>N/A\<close> and the empty type, the first record of the
  run has both.
\<close>

theorem name_na_type_empty_record:
  "dict_get (hd (rows (scrape (example_world (ok_page (u ''<p>'')) (Inr (u ''text''))
                                  (Inr (Some na_response))))))
     (u ''Lender Name'') = PyStr (u ''N/A'') \<and>
   dict_get (hd (rows (scrape (example_world (ok_page (u ''<p>'')) (Inr (u ''text''))
                                  (Inr (Some na_response))))))
     (u ''Lender Type'') = PyStr []"
proof -
  let ?w = "example_world (ok_page (u ''<p>'')) (Inr (u ''text'')) (Inr (Some na_response))"
  have ne: "u ''<p>'' \<noteq> []" by (simp add: u_def)
  have pt: "\<And>l. page_text ?w l = Some (u ''text'')"
    using ne by (simp add: page_text_def example_fetch example_fields)
  have lr: "\<And>l. lender_record ?w (u ''2026-01-01'') l (u ''text'')
      = normalize_dict (u ''2026-01-01'') l
          [(u ''Lender Name'', PyStr (u ''N/A'')), (u ''Lender Type'', PyStr [])]"
    by (simp add: lender_record_def example_fields parse_with_gemini_def gemini_try_def
          decode_na_response)
  have "hd (rows (scrape ?w))
      = normalize_dict (u ''2026-01-01'') (hd LENDERS)
          [(u ''Lender Name'', PyStr (u ''N/A'')), (u ''Lender Type'', PyStr [])]"
    by (simp add: scrape_rows pt lr example_fields LENDERS_def)
  then show ?thesis
    by (simp add: normalize_name normalize_type py_or_def dict_get_Nil dict_get_Cons keys_def)
qed

text \<open>
  What the normalization does ensure. In every record of a run the field
  \<open>Lender Name\<close> is present and true (not \<open>None\<close>, not empty), and the field
  \<open>Lender Type\<close> is present and is not \<open>N/A\<close>. The name is replaced by the
  descriptor's exactly when the extractor's name is missing (\<open>get\<close> then gives \<open>None\<close>)
  or false, and the type exactly when the extractor's type is missing or equal to
  \<open>N/A\<close>.
\<close>

theorem records_normalized:
  "(\<forall>d\<in>set (rows (scrape w)).
      u ''Lender Name'' \<in> set (keys d) \<and> truthy (dict_get d (u ''Lender Name'')) \<and>
      u ''Lender Type'' \<in> set (keys d) \<and> dict_get d (u ''Lender Type'') \<noteq> PyStr (u ''N/A'')) \<and>
   dict_get (normalize_dict a l d0) (u ''Lender Name'')
     = (if truthy (dict_get d0 (u ''Lender Name'')) then dict_get d0 (u ''Lender Name'')
        else PyStr (name l)) \<and>
   dict_get (normalize_dict a l d0) (u ''Lender Type'')
     = (if u ''Lender Type'' \<notin> set (keys d0) \<or> dict_get d0 (u ''Lender Type'') = PyStr (u ''N/A'')
        then PyStr (type l) else dict_get d0 (u ''Lender Type'')) \<and>
   (u ''Lender Name'' \<notin> set (keys d0) \<longrightarrow> dict_get d0 (u ''Lender Name'') = PyNone)"
proof (intro conjI ballI impI)
  fix d assume "d \<in> set (rows (scrape w))"
  then obtain l' d' where l: "l' \<in> set LENDERS" and d: "d = normalize_dict (today w) l' d'"
    using scrape_rows_normalized [of d w] by blast
  have f: "name l' \<noteq> []" "type l' \<noteq> u ''N/A''" using LENDERS_fields l by auto
  from normalized_invariant [OF f, of "today w" d']
  show "u ''Lender Name'' \<in> set (keys d)" "truthy (dict_get d (u ''Lender Name''))"
    "u ''Lender Type'' \<in> set (keys d)" "dict_get d (u ''Lender Type'') \<noteq> PyStr (u ''N/A'')"
    by (simp_all add: d)
next
  show "dict_get (normalize_dict a l d0) (u ''Lender Name'')
     = (if truthy (dict_get d0 (u ''Lender Name'')) then dict_get d0 (u ''Lender Name'')
        else PyStr (name l))"
    by (simp add: normalize_name py_or_def)
next
  show "dict_get (normalize_dict a l d0) (u ''Lender Type'')
     = (if u ''Lender Type'' \<notin> set (keys d0) \<or> dict_get d0 (u ''Lender Type'') = PyStr (u ''N/A'')
        then PyStr (type l) else dict_get d0 (u ''Lender Type''))"
    by (rule normalize_type)
next
  assume "u ''Lender Name'' \<notin> set (keys d0)"
  then show "dict_get d0 (u ''Lender Name'') = PyNone" by (rule dict_get_absent)
qed

theorem records_normalized_witness:
  "rows (scrape (example_world (ok_page (u ''<p>'')) (Inr (u ''text'')) (Inr (Some (u ''{}''))))) \<noteq> [] \<and>
   list_all (\<lambda>d. truthy (dict_get d (u ''Lender Name'')) \<and>
                  dict_get d (u ''Lender Type'') \<noteq> PyStr (u ''N/A''))
     (rows (scrape (example_world (ok_page (u ''<p>'')) (Inr (u ''text'')) (Inr (Some (u ''{}'')))))) \<and>
   u ''Lender Name'' \<notin> set (keys []) \<and>
   dict_get (normalize_dict (u ''2026-01-01'') (hd LENDERS) []) (u ''Lender Name'')
     = PyStr (u ''36th Street Capital'') \<and>
   dict_get (normalize_dict (u ''2026-01-01'') (hd LENDERS) [(u ''Lender Type'', PyStr (u ''N/A''))])
     (u ''Lender Type'') = PyStr (u ''Independent Lender'')"
proof -
  let ?w = "example_world (ok_page (u ''<p>'')) (Inr (u ''text'')) (Inr (Some (u ''{}'')))"
  have ne: "u ''<p>'' \<noteq> []" by (simp add: u_def)
  have pt: "\<And>l. page_text ?w l = Some (u ''text'')"
    using ne by (simp add: page_text_def example_fetch example_fields)
  have 1: "rows (scrape ?w) \<noteq> []"
    by (simp add: scrape_rows pt LENDERS_def)
  note a = records_normalized [of ?w "u ''2026-01-01''" "hd LENDERS" "[]"]
  note b = records_normalized [of ?w "u ''2026-01-01''" "hd LENDERS" "[(u ''Lender Type'', PyStr (u ''N/A''))]"]
  have 2: "list_all (\<lambda>d. truthy (dict_get d (u ''Lender Name'')) \<and>
                  dict_get d (u ''Lender Type'') \<noteq> PyStr (u ''N/A'')) (rows (scrape ?w))"
    using a by (simp add: list_all_iff)
  have 3: "dict_get (normalize_dict (u ''2026-01-01'') (hd LENDERS) []) (u ''Lender Name'')
     = PyStr (u ''36th Street Capital'')"
    using a by (simp add: dict_get_Nil hd_LENDERS)
  have 4: "dict_get (normalize_dict (u ''2026-01-01'') (hd LENDERS) [(u ''Lender Type'', PyStr (u ''N/A''))])
     (u ''Lender Type'') = PyStr (u ''Independent Lender'')"
    using b by (simp add: dict_get_Cons hd_LENDERS)
  show ?thesis using 1 2 3 4 by (simp add: keys_def)
qed

section \<open>The Tabular Writer: claim C7\<close>

lemma dict_to_list_ok:
  "set (keys rowdict) \<subseteq> set fieldnames \<Longrightarrow>
   dict_to_list fieldnames rowdict
     = Inr (map (\<lambda>key. case map_of rowdict key of None \<Rightarrow> PyStr [] | Some v \<Rightarrow> v) fieldnames)"
  by (auto simp: dict_to_list_def Let_def filter_empty_conv)







lemma map_of_header: "k \<in> set ks \<Longrightarrow> map_of (map (\<lambda>k. (k, PyStr k)) ks) k = Some (PyStr k)"
  by (induction ks) auto

lemma header_cells:
  "map (\<lambda>key. field_text py_str
          (case map_of (map (\<lambda>k. (k, PyStr k)) ks) key of None \<Rightarrow> PyStr [] | Some v \<Rightarrow> v)) ks' = ks'"
  if "set ks' \<subseteq> set ks"
  using that
proof (induction ks')
  case Nil
  show ?case by simp
next
  case (Cons k ks')
  have "map_of (map (\<lambda>k. (k, PyStr k)) ks) k = Some (PyStr k)"
    using Cons.prems by (intro map_of_header) simp
  then show ?case using Cons by (simp add: field_text_def)
qed


lemma writeheader_result:
  "writeheader py_str ks [] = (if encodable (csv_line ks) then (None, csv_line ks)
                               else (Some UnicodeEncodeError, []))"
proof -
  have k: "keys (map (\<lambda>k. (k, PyStr k)) ks) = ks" by (simp add: keys_def comp_def)
  have c: "map (\<lambda>key. field_text py_str
          (case map_of (map (\<lambda>k. (k, PyStr k)) ks) key of None \<Rightarrow> PyStr [] | Some v \<Rightarrow> v)) ks = ks"
    by (rule header_cells) simp
  show ?thesis
    by (simp add: writeheader_def writerow_def dict_to_list_ok k Let_def comp_def c)
qed









end
